theory Spec2Isabelle
  imports Main
begin

text \<open>
  A shallow embedding of table functions of the Steampipe AWS plugin: the List and Get
  operations of \<open>aws_api_gatewayv2_route\<close>, \<open>aws_lambda_alias\<close>,
  \<open>aws_cloudfront_origin_access_identity\<close> and \<open>aws_cloudtrail_trail_event\<close>, and their
  hydrate functions. A table function is a state transformer on the query data of the scan;
  what it does to the outside world (waits on the rate limiter, requests to the provider,
  rows delivered) is logged in a trace. The provider is a function from requests to
  responses; each pagination loop takes fuel, since a provider may hand out continuation tokens
  for ever. Pointers are options, and a nil dereference is the outcome \<open>Panicked\<close>.
\<close>

section \<open>Errors, outcomes and the observable trace of a scan\<close>

text \<open>
  A Go \<open>error\<close> value. \<open>AwsError code message\<close> is an error that implements the AWS SDK's
  \<open>awserr.Error\<close> interface (it has a \<open>Code()\<close>); \<open>PlainError message\<close> is any other error.
\<close>

datatype error = AwsError string string | PlainError string

text \<open>
  Every table function has the Go signature \<open>(interface{}, error)\<close>. \<open>Returned v e\<close> is the
  returned pair (\<open>None\<close> for \<open>nil\<close>), \<open>Panicked\<close> a run-time panic (nil dereference),
  \<open>OutOfFuel\<close> a pagination loop that has not returned within the given number of
  iterations. A list function only ever returns \<open>nil\<close> as its value: its outcome is a
  \<open>unit outcome\<close>.
\<close>

datatype 'v outcome = Returned "'v option" "error option" | Panicked | OutOfFuel

text \<open>
  What a scan does to the outside world, in order: it blocks on the rate limiter for a
  (service, action) pair, it sends a request to the provider, it delivers a row.
\<close>

type_synonym tags = "string \<times> string"

datatype ('q, 'i) event = Wait tags | Call 'q | Emit 'i

fun emitted :: "('q, 'i) event list \<Rightarrow> 'i list" where
  "emitted [] = []"
| "emitted (Emit x # es) = x # emitted es"
| "emitted (Wait t # es) = emitted es"
| "emitted (Call q # es) = emitted es"

fun calls :: "('q, 'i) event list \<Rightarrow> 'q list" where
  "calls [] = []"
| "calls (Call q # es) = q # calls es"
| "calls (Wait t # es) = calls es"
| "calls (Emit x # es) = calls es"

section \<open>The query data handed to every table function\<close>

text \<open>
  \<open>plugin.QueryData\<close>, as far as the table functions read it: \<open>QueryContext.Limit\<close> (a
  \<open>*int64\<close>), the equality quals (\<open>EqualsQuals\<close>, called \<open>KeyColumnQuals\<close> by the older SDK),
  the full quals of a column as (operator, seconds) pairs, and the \<open>Tags\<close> of the table's
  list configuration. \<open>trace\<close> is the log of the scan's observable events so far.
\<close>

record ('q, 'i) QueryData =
  Limit :: "int option"
  EqualsQuals :: "string \<rightharpoonup> string"
  KeyColumnQuals :: "string \<rightharpoonup> string"
  Quals :: "string \<rightharpoonup> (string \<times> int) list"
  Tags :: tags
  trace :: "('q, 'i) event list"

text \<open>\<open>GetStringValue\<close> on a qual value; the protobuf getter answers \<open>""\<close> on a nil receiver.\<close>

definition GetStringValue :: "string option \<Rightarrow> string" where
  "GetStringValue v = (case v of None \<Rightarrow> [] | Some s \<Rightarrow> s)"

text \<open>The Go conversion \<open>int32(x)\<close> of an \<open>int64\<close>: the low 32 bits, read as two's complement.\<close>

definition int32 :: "int \<Rightarrow> int" where
  "int32 x = (x + 2 ^ 31) mod 2 ^ 32 - 2 ^ 31"

text \<open>
  The row emitter, the row budget and the rate limiter's wait are methods of the plugin
  SDK's \<open>QueryData\<close>; the SDK is not in the source tree, so the four methods the table
  functions call are modelled from the spec.

  Modelled from the spec: \<open>RowsRemaining\<close>, the row budget of the scan (spec 4.2: the budget
  is decremented as items stream). Without a limit the budget is unbounded (\<open>None\<close>).
  Cancellation of the context, which also makes the SDK answer 0, is not modelled.
\<close>

definition RowsRemaining :: "('q, 'i) QueryData \<Rightarrow> nat option" where
  "RowsRemaining d =
     (case Limit d of
        None \<Rightarrow> None
      | Some l \<Rightarrow> Some (nat l - length (emitted (trace d))))"

text \<open>
  Modelled from the spec: \<open>StreamListItem\<close>, the row emitter of the SDK (spec 4.2). An item
  is delivered while budget is left and discarded otherwise.
\<close>

definition StreamListItem :: "('q, 'i) QueryData \<Rightarrow> 'i \<Rightarrow> ('q, 'i) QueryData" where
  "StreamListItem d item =
     (if RowsRemaining d = Some 0 then d else d\<lparr>trace := trace d @ [Emit item]\<rparr>)"

text \<open>
  Modelled from the spec: \<open>StreamLeafListItem\<close>, the emitter a child table's list function
  calls; the same contract (spec 4.2).
\<close>

definition StreamLeafListItem :: "('q, 'i) QueryData \<Rightarrow> 'i \<Rightarrow> ('q, 'i) QueryData" where
  "StreamLeafListItem d item = StreamListItem d item"

text \<open>
  Modelled from the spec: \<open>WaitForListRateLimit\<close>, the rate limiter's wait of the SDK (spec
  4.5), on the pair the table's list configuration is tagged with.
\<close>

definition WaitForListRateLimit :: "('q, 'i) QueryData \<Rightarrow> ('q, 'i) QueryData" where
  "WaitForListRateLimit d = d\<lparr>trace := trace d @ [Wait (Tags d)]\<rparr>"

text \<open>Sending request \<open>q\<close> to the provider is recorded in the trace.\<close>

definition issue :: "'q \<Rightarrow> ('q, 'i) QueryData \<Rightarrow> ('q, 'i) QueryData" where
  "issue q d = d\<lparr>trace := trace d @ [Call q]\<rparr>"

section \<open>The page size of a list call\<close>

text \<open>
  The block headed \<open>// Limiting the results\<close>, which \<open>listAPIGatewayV2Routes\<close> (ceiling 500)
  and \<open>listCloudwatchLogTrailEvents\<close> (ceiling 10000) both carry:
  \<^verbatim>\<open>
  maxLimit := int32(500)
  if d.QueryContext.Limit != nil {
      limit := int32(*d.QueryContext.Limit)
      if limit < maxLimit {
          if limit < 1 { maxLimit = 1 } else { maxLimit = limit }
      }
  }
  \<close>
\<close>

definition limitingTheResults :: "int \<Rightarrow> int option \<Rightarrow> int" where
  "limitingTheResults maxLimit lim =
     (case lim of
        None \<Rightarrow> maxLimit
      | Some l \<Rightarrow>
          (let limit = int32 l
           in if limit < maxLimit then (if limit < 1 then 1 else limit) else maxLimit))"

section \<open>Table \<open>aws_api_gatewayv2_route\<close>\<close>

text \<open>
  \<open>types.Api\<close> (the parent row; only \<open>ApiId\<close> is read), the request and response of
  \<open>GetRoutes\<close>, the request of \<open>GetRoute\<close>, and the row type \<open>RouteInfo\<close>. Pointers are
  options. The list function copies each of the thirteen fields of a \<open>types.Route\<close> into a
  fresh \<open>GetRouteOutput\<close>; the payload \<open>'r\<close> stands for those thirteen fields. \<open>MaxResults\<close>
  is sent as the decimal rendering (\<open>fmt.Sprint\<close>) of the number kept here.
\<close>

record Api =
  ApiId :: "string option"

record GetRoutesInput =
  GetRoutes_ApiId :: "string option"
  MaxResults :: int
  NextToken :: "string option"

record 'r GetRoutesOutput =
  Items :: "'r list"
  Result_NextToken :: "string option"

record GetRouteInput =
  GetRoute_ApiId :: "string option"
  GetRoute_RouteId :: "string option"

record 'r RouteInfo =
  RouteInfo_ApiId :: string
  GetRouteOutput :: 'r

text \<open>The API Gateway V2 client: the two provider operations the table uses.\<close>

record 'r APIGatewayV2 =
  GetRoutes :: "GetRoutesInput \<Rightarrow> error + 'r GetRoutesOutput"
  GetRoute :: "GetRouteInput \<Rightarrow> error + 'r option"

text \<open>The table's tags, from \<open>tableAwsAPIGatewayV2Route\<close>.\<close>

definition tableAwsAPIGatewayV2Route_List_Tags :: tags where
  "tableAwsAPIGatewayV2Route_List_Tags = (''apigateway'', ''GetRoutes'')"

definition tableAwsAPIGatewayV2Route_Get_Tags :: tags where
  "tableAwsAPIGatewayV2Route_Get_Tags = (''apigateway'', ''GetRoute'')"

text \<open>
  The inner loop \<open>for _, route := range result.Items\<close>. \<open>Some out\<close>: the function returned
  (or panicked on \<open>*api.ApiId\<close>) inside the loop; \<open>None\<close>: the loop ran to its end.
\<close>

fun streamRoutes ::
  "Api \<Rightarrow> 'r list \<Rightarrow> (GetRoutesInput, 'r RouteInfo) QueryData \<Rightarrow>
   unit outcome option \<times> (GetRoutesInput, 'r RouteInfo) QueryData" where
  "streamRoutes api [] d = (None, d)"
| "streamRoutes api (route # rest) d =
     (case ApiId api of
        None \<Rightarrow> (Some Panicked, d)
      | Some apiId \<Rightarrow>
          (let d' = StreamLeafListItem d \<lparr>RouteInfo_ApiId = apiId, GetRouteOutput = route\<rparr>
           in if RowsRemaining d' = Some 0 then (Some (Returned None None), d')
              else streamRoutes api rest d'))"

text \<open>The outer loop \<open>for pagesLeft\<close>; the fuel bounds the number of pages requested.\<close>

fun routesPages ::
  "nat \<Rightarrow> 'r APIGatewayV2 \<Rightarrow> Api \<Rightarrow> GetRoutesInput \<Rightarrow> (GetRoutesInput, 'r RouteInfo) QueryData \<Rightarrow>
   unit outcome \<times> (GetRoutesInput, 'r RouteInfo) QueryData" where
  "routesPages 0 svc api params d = (OutOfFuel, d)"
| "routesPages (Suc fuel) svc api params d =
     (let d1 = WaitForListRateLimit d;
          d2 = issue params d1
      in case GetRoutes svc params of
           Inl err \<Rightarrow> (Returned None (Some err), d2)
         | Inr result \<Rightarrow>
             (case streamRoutes api (Items result) d2 of
                (Some out, d3) \<Rightarrow> (out, d3)
              | (None, d3) \<Rightarrow>
                  (case Result_NextToken result of
                     Some t \<Rightarrow> routesPages fuel svc api (params\<lparr>NextToken := Some t\<rparr>) d3
                   | None \<Rightarrow> (Returned None None, d3))))"

text \<open>
  \<open>listAPIGatewayV2Routes\<close>. \<open>client\<close> is what \<open>APIGatewayV2Client(ctx, d)\<close> answered: an
  error, a nil client (unsupported region) or a client.
\<close>

definition listAPIGatewayV2Routes ::
  "nat \<Rightarrow> error + 'r APIGatewayV2 option \<Rightarrow> (GetRoutesInput, 'r RouteInfo) QueryData \<Rightarrow> Api \<Rightarrow>
   unit outcome \<times> (GetRoutesInput, 'r RouteInfo) QueryData" where
  "listAPIGatewayV2Routes fuel client d api =
     (case client of
        Inl err \<Rightarrow> (Returned None (Some err), d)
      | Inr None \<Rightarrow> (Returned None None, d)
      | Inr (Some svc) \<Rightarrow>
          (let maxLimit = limitingTheResults 500 (Limit d);
               params = \<lparr>GetRoutes_ApiId = ApiId api, MaxResults = maxLimit, NextToken = None\<rparr>
           in routesPages fuel svc api params d))"

text \<open>\<open>getAPIGatewayV2Route\<close>, the table's Get operation.\<close>

definition getAPIGatewayV2Route ::
  "error + 'r APIGatewayV2 option \<Rightarrow> (GetRouteInput, 'i) QueryData \<Rightarrow>
   'r RouteInfo outcome \<times> (GetRouteInput, 'i) QueryData" where
  "getAPIGatewayV2Route client d =
     (case client of
        Inl err \<Rightarrow> (Returned None (Some err), d)
      | Inr None \<Rightarrow> (Returned None None, d)
      | Inr (Some svc) \<Rightarrow>
          (let api = GetStringValue (EqualsQuals d ''api_id'');
               routeId = GetStringValue (EqualsQuals d ''route_id'');
               params = \<lparr>GetRoute_ApiId = Some api, GetRoute_RouteId = Some routeId\<rparr>;
               d1 = issue params d
           in case GetRoute svc params of
                Inl err \<Rightarrow> (Returned None (Some err), d1)
              | Inr (Some item) \<Rightarrow>
                  (Returned (Some \<lparr>RouteInfo_ApiId = api, GetRouteOutput = item\<rparr>) None, d1)
              | Inr None \<Rightarrow> (Returned None None, d1)))"

section \<open>Table \<open>aws_lambda_alias\<close>\<close>

text \<open>
  \<open>lambda.AliasConfiguration\<close> (the fields the columns read), \<open>lambda.FunctionConfiguration\<close>
  (the parent row; only \<open>FunctionName\<close> is read), \<open>lambda.GetPolicyOutput\<close>, the row type
  \<open>aliasRowData\<close> and the requests and responses of the three provider operations.
\<close>

record AliasConfiguration =
  Name :: "string option"
  AliasArn :: "string option"
  FunctionVersion :: "string option"
  RevisionId :: "string option"
  Description :: "string option"

record FunctionConfiguration =
  FunctionName :: "string option"

record GetPolicyOutput =
  Policy :: "string option"
  Policy_RevisionId :: "string option"

record aliasRowData =
  Alias :: "AliasConfiguration option"
  Row_FunctionName :: "string option"

record ListAliasesInput =
  ListAliases_FunctionName :: "string option"
  Marker :: "string option"

record ListAliasesOutput =
  Aliases :: "AliasConfiguration option list"
  NextMarker :: "string option"

record GetAliasInput =
  GetAlias_FunctionName :: "string option"
  GetAlias_Name :: "string option"

record GetPolicyInput =
  GetPolicy_FunctionName :: "string option"
  Qualifier :: "string option"

text \<open>
  The Lambda client. \<open>LambdaService(ctx, d)\<close> answers an error or a client; the table
  functions use the client without a nil check.
\<close>

record Lambda =
  ListAliases :: "ListAliasesInput \<Rightarrow> error + ListAliasesOutput"
  GetAlias :: "GetAliasInput \<Rightarrow> error + AliasConfiguration option"
  GetPolicy :: "GetPolicyInput \<Rightarrow> error + GetPolicyOutput"

text \<open>
  \<open>ListAliasesPages\<close> is the pagination helper of the AWS SDK for Go (v1), outside this
  repository. It is modelled from its documented contract: it requests the pages of
  \<open>ListAliases\<close> one after the other, hands each page to the callback together with
  \<open>lastPage\<close> (the page carries no continuation marker), goes on while the callback answers
  \<open>true\<close> and a marker is left, and returns the error of a failed request. The fuel bounds
  the number of pages requested.
\<close>

fun ListAliasesPages ::
  "nat \<Rightarrow> Lambda \<Rightarrow> ListAliasesInput \<Rightarrow>
   (ListAliasesOutput \<Rightarrow> bool \<Rightarrow> (ListAliasesInput, 'i) QueryData \<Rightarrow> bool \<times> (ListAliasesInput, 'i) QueryData) \<Rightarrow>
   (ListAliasesInput, 'i) QueryData \<Rightarrow> unit outcome \<times> (ListAliasesInput, 'i) QueryData" where
  "ListAliasesPages 0 svc input fn d = (OutOfFuel, d)"
| "ListAliasesPages (Suc fuel) svc input fn d =
     (let d1 = issue input d
      in case ListAliases svc input of
           Inl err \<Rightarrow> (Returned None (Some err), d1)
         | Inr page \<Rightarrow>
             (let lastPage = (NextMarker page = None);
                  (continue, d2) = fn page lastPage d1
              in if continue \<and> \<not> lastPage
                 then ListAliasesPages fuel svc (input\<lparr>Marker := NextMarker page\<rparr>) fn d2
                 else (Returned None None, d2)))"

text \<open>The callback \<open>listLambdaAliases\<close> passes to \<open>ListAliasesPages\<close>.\<close>

definition listLambdaAliases_page ::
  "FunctionConfiguration \<Rightarrow> ListAliasesOutput \<Rightarrow> bool \<Rightarrow>
   (ListAliasesInput, aliasRowData) QueryData \<Rightarrow> bool \<times> (ListAliasesInput, aliasRowData) QueryData" where
  "listLambdaAliases_page function page lastPage d =
     (\<not> lastPage,
      foldl (\<lambda>d alias. StreamLeafListItem d
               \<lparr>Alias = alias, Row_FunctionName = FunctionName function\<rparr>)
            d (Aliases page))"

definition listLambdaAliases ::
  "nat \<Rightarrow> error + Lambda \<Rightarrow> (ListAliasesInput, aliasRowData) QueryData \<Rightarrow> FunctionConfiguration \<Rightarrow>
   unit outcome \<times> (ListAliasesInput, aliasRowData) QueryData" where
  "listLambdaAliases fuel client d function =
     (case client of
        Inl err \<Rightarrow> (Returned None (Some err), d)
      | Inr svc \<Rightarrow>
          ListAliasesPages fuel svc
            \<lparr>ListAliases_FunctionName = FunctionName function, Marker = None\<rparr>
            (listLambdaAliases_page function) d)"

text \<open>
  \<open>getLambdaAlias\<close>. \<open>matrixRegion\<close> is \<open>d.KeyColumnQualString(matrixKeyRegion)\<close>, the region
  of the current matrix entry; neither that SDK method nor the constant is in the source
  tree, so the value is a parameter.
\<close>

definition getLambdaAlias ::
  "string \<Rightarrow> error + Lambda \<Rightarrow> (GetAliasInput, 'i) QueryData \<Rightarrow>
   aliasRowData outcome \<times> (GetAliasInput, 'i) QueryData" where
  "getLambdaAlias matrixRegion client d =
     (let name = GetStringValue (KeyColumnQuals d ''name'');
          functionName = GetStringValue (KeyColumnQuals d ''function_name'');
          region = GetStringValue (KeyColumnQuals d ''region'')
      in if name = [] \<or> functionName = [] \<or> region \<noteq> matrixRegion
         then (Returned None None, d)
         else
           (case client of
              Inl err \<Rightarrow> (Returned None (Some err), d)
            | Inr svc \<Rightarrow>
                (let params = \<lparr>GetAlias_FunctionName = Some functionName, GetAlias_Name = Some name\<rparr>;
                     d1 = issue params d
                 in case GetAlias svc params of
                      Inl err \<Rightarrow> (Returned None (Some err), d1)
                    | Inr rowData \<Rightarrow>
                        (Returned (Some \<lparr>Alias = rowData, Row_FunctionName = Some functionName\<rparr>) None,
                         d1))))"

text \<open>
  \<open>getLambdaAliasPolicy\<close>. The row item is an \<open>*aliasRowData\<close>; \<open>*alias.FunctionName\<close> and
  \<open>*alias.Alias.Name\<close> panic on a nil pointer. On \<open>ResourceNotFoundException\<close> the function
  returns the zero value \<open>lambda.GetPolicyOutput{}\<close>, otherwise the response of the provider.
\<close>

definition getLambdaAliasPolicy ::
  "error + Lambda \<Rightarrow> (GetPolicyInput, 'i) QueryData \<Rightarrow> aliasRowData \<Rightarrow>
   GetPolicyOutput outcome \<times> (GetPolicyInput, 'i) QueryData" where
  "getLambdaAliasPolicy client d alias =
     (case client of
        Inl err \<Rightarrow> (Returned None (Some err), d)
      | Inr svc \<Rightarrow>
          (case Row_FunctionName alias of
             None \<Rightarrow> (Panicked, d)
           | Some functionName \<Rightarrow>
               (case Alias alias of
                  None \<Rightarrow> (Panicked, d)
                | Some a \<Rightarrow>
                    (case Name a of
                       None \<Rightarrow> (Panicked, d)
                     | Some name \<Rightarrow>
                         (let input = \<lparr>GetPolicy_FunctionName = Some functionName,
                                        Qualifier = Some name\<rparr>;
                              d1 = issue input d
                          in case GetPolicy svc input of
                               Inl err \<Rightarrow>
                                 (case err of
                                    AwsError code message \<Rightarrow>
                                      if code = ''ResourceNotFoundException''
                                      then (Returned (Some \<lparr>Policy = None, Policy_RevisionId = None\<rparr>) None, d1)
                                      else (Returned None (Some err), d1)
                                  | PlainError message \<Rightarrow> (Returned None (Some err), d1))
                             | Inr op \<Rightarrow> (Returned (Some op) None, d1))))))"

text \<open>
  The columns of \<open>tableAwsLambdaAlias\<close> with the hydrate function each declares
  (\<open>awsRegionalColumns\<close> adds the standard columns, which are defined elsewhere).
\<close>

definition tableAwsLambdaAlias_Columns :: "(string \<times> string option) list" where
  "tableAwsLambdaAlias_Columns =
     [(''name'', None),
      (''function_name'', None),
      (''alias_arn'', None),
      (''function_version'', None),
      (''revision_id'', None),
      (''description'', None),
      (''policy'', Some ''getLambdaAliasPolicy''),
      (''policy_std'', Some ''getLambdaAliasPolicy''),
      (''title'', None),
      (''akas'', None)]"

section \<open>Table \<open>aws_cloudfront_origin_access_identity\<close>\<close>

text \<open>
  The row item of the table is an \<open>interface{}\<close>: the List operation streams
  \<open>*cloudfront.OriginAccessIdentitySummary\<close>, the Get operation returns
  \<open>*cloudfront.GetCloudFrontOriginAccessIdentityOutput\<close>; \<open>Other\<close> stands for a value of any
  other dynamic type. The pointers to the items themselves are taken to be non-nil; the
  pointer fields inside them are options.
\<close>

record OriginAccessIdentitySummary =
  Summary_Id :: "string option"
  Summary_S3CanonicalUserId :: "string option"
  Summary_Comment :: "string option"

record CloudFrontOriginAccessIdentity =
  Identity_Id :: "string option"
  Identity_S3CanonicalUserId :: "string option"

record GetCloudFrontOriginAccessIdentityOutput =
  Output_CloudFrontOriginAccessIdentity :: "CloudFrontOriginAccessIdentity option"
  ETag :: "string option"

datatype 'x item =
    GetOutput GetCloudFrontOriginAccessIdentityOutput
  | Summary OriginAccessIdentitySummary
  | Other 'x

text \<open>The value of a Go expression: a value, or a panic while evaluating it.\<close>

datatype 'a evaluated = Value 'a | Panic

text \<open>
  \<open>originAccessIdentityID\<close>. The first case dereferences the
  \<open>CloudFrontOriginAccessIdentity\<close> pointer of the output, which panics when nil.
\<close>

fun originAccessIdentityID :: "'x item \<Rightarrow> string option evaluated" where
  "originAccessIdentityID (GetOutput out) =
     (case Output_CloudFrontOriginAccessIdentity out of
        None \<Rightarrow> Panic
      | Some identity \<Rightarrow> Value (Identity_Id identity))"
| "originAccessIdentityID (Summary s) = Value (Summary_Id s)"
| "originAccessIdentityID (Other x) = Value None"

record awsCommonColumnData =
  Partition :: string
  Region :: string
  AccountId :: string

text \<open>
  \<open>getCloudFrontOriginAccessIdentityARN\<close>. \<open>common\<close> is what \<open>getCommonColumns(ctx, d, h)\<close>
  answered (the function is not in the source tree): an error or the common column data.
  The dereference of the identity id comes first.
\<close>

definition getCloudFrontOriginAccessIdentityARN ::
  "error + awsCommonColumnData \<Rightarrow> 'x item \<Rightarrow> string outcome" where
  "getCloudFrontOriginAccessIdentityARN common item =
     (case originAccessIdentityID item of
        Panic \<Rightarrow> Panicked
      | Value None \<Rightarrow> Panicked
      | Value (Some originAccessIdentityData) \<Rightarrow>
          (case common of
             Inl err \<Rightarrow> Returned None (Some err)
           | Inr commonColumnData \<Rightarrow>
               Returned (Some (''arn:'' @ Partition commonColumnData @ '':cloudfront::'' @
                               AccountId commonColumnData @ '':origin-access-identity/'' @
                               originAccessIdentityData)) None))"

text \<open>The request and response of \<open>ListCloudFrontOriginAccessIdentities\<close>, and the client.\<close>

record ListCloudFrontOriginAccessIdentitiesInput =
  List_Marker :: "string option"

record CloudFrontOriginAccessIdentityList =
  List_Items :: "OriginAccessIdentitySummary list"
  List_NextMarker :: "string option"

record ListCloudFrontOriginAccessIdentitiesOutput =
  Output_CloudFrontOriginAccessIdentityList :: "CloudFrontOriginAccessIdentityList option"

record CloudFront =
  ListCloudFrontOriginAccessIdentities ::
    "ListCloudFrontOriginAccessIdentitiesInput \<Rightarrow> error + ListCloudFrontOriginAccessIdentitiesOutput"

text \<open>
  \<open>ListCloudFrontOriginAccessIdentitiesPages\<close>, the pagination helper of the AWS SDK for Go
  (v1), outside this repository; modelled from its documented contract like
  \<open>ListAliasesPages\<close>. The callback answers \<open>None\<close> when it panics.
\<close>

fun ListCloudFrontOriginAccessIdentitiesPages ::
  "nat \<Rightarrow> CloudFront \<Rightarrow> ListCloudFrontOriginAccessIdentitiesInput \<Rightarrow>
   (ListCloudFrontOriginAccessIdentitiesOutput \<Rightarrow> bool \<Rightarrow>
      (ListCloudFrontOriginAccessIdentitiesInput, 'i) QueryData \<Rightarrow>
      bool option \<times> (ListCloudFrontOriginAccessIdentitiesInput, 'i) QueryData) \<Rightarrow>
   (ListCloudFrontOriginAccessIdentitiesInput, 'i) QueryData \<Rightarrow>
   unit outcome \<times> (ListCloudFrontOriginAccessIdentitiesInput, 'i) QueryData" where
  "ListCloudFrontOriginAccessIdentitiesPages 0 svc input fn d = (OutOfFuel, d)"
| "ListCloudFrontOriginAccessIdentitiesPages (Suc fuel) svc input fn d =
     (let d1 = issue input d
      in case ListCloudFrontOriginAccessIdentities svc input of
           Inl err \<Rightarrow> (Returned None (Some err), d1)
         | Inr page \<Rightarrow>
             (let nextMarker =
                    (case Output_CloudFrontOriginAccessIdentityList page of
                       None \<Rightarrow> None
                     | Some l \<Rightarrow> List_NextMarker l);
                  isLast = (nextMarker = None)
              in case fn page isLast d1 of
                   (None, d2) \<Rightarrow> (Panicked, d2)
                 | (Some continue, d2) \<Rightarrow>
                     if continue \<and> \<not> isLast
                     then ListCloudFrontOriginAccessIdentitiesPages fuel svc
                            (input\<lparr>List_Marker := nextMarker\<rparr>) fn d2
                     else (Returned None None, d2)))"

text \<open>The callback of \<open>listCloudFrontOriginAccessIdentities\<close>.\<close>

definition listCloudFrontOriginAccessIdentities_page ::
  "ListCloudFrontOriginAccessIdentitiesOutput \<Rightarrow> bool \<Rightarrow>
   (ListCloudFrontOriginAccessIdentitiesInput, 'x item) QueryData \<Rightarrow>
   bool option \<times> (ListCloudFrontOriginAccessIdentitiesInput, 'x item) QueryData" where
  "listCloudFrontOriginAccessIdentities_page page isLast d =
     (case Output_CloudFrontOriginAccessIdentityList page of
        None \<Rightarrow> (None, d)
      | Some l \<Rightarrow>
          (Some (\<not> isLast),
           foldl (\<lambda>d identity. StreamListItem d (Summary identity)) d (List_Items l)))"

definition listCloudFrontOriginAccessIdentities ::
  "nat \<Rightarrow> error + CloudFront \<Rightarrow> (ListCloudFrontOriginAccessIdentitiesInput, 'x item) QueryData \<Rightarrow>
   unit outcome \<times> (ListCloudFrontOriginAccessIdentitiesInput, 'x item) QueryData" where
  "listCloudFrontOriginAccessIdentities fuel client d =
     (case client of
        Inl err \<Rightarrow> (Returned None (Some err), d)
      | Inr svc \<Rightarrow>
          ListCloudFrontOriginAccessIdentitiesPages fuel svc \<lparr>List_Marker = None\<rparr>
            listCloudFrontOriginAccessIdentities_page d)"

section \<open>Table \<open>aws_cloudtrail_trail_event\<close>\<close>

text \<open>
  \<open>plugin.KeyColumn\<close>: the name of a key column and the operators it declares (empty when
  the source gives none).
\<close>

record KeyColumn =
  KeyColumn_Name :: string
  Operators :: "string list"

text \<open>
  Modelled from the spec: the operators a key column supports; one that declares none
  supports equality only (spec 4.1: equality always, range only if explicitly declared).
\<close>

definition supportedOperators :: "KeyColumn \<Rightarrow> string list" where
  "supportedOperators k = (if Operators k = [] then [''=''] else Operators k)"

definition tableAwsCloudtrailEventsListKeyColumns :: "KeyColumn list" where
  "tableAwsCloudtrailEventsListKeyColumns =
     [\<lparr>KeyColumn_Name = ''log_group_name'', Operators = []\<rparr>,
      \<lparr>KeyColumn_Name = ''log_stream_name'', Operators = []\<rparr>,
      \<lparr>KeyColumn_Name = ''filter'', Operators = []\<rparr>,
      \<lparr>KeyColumn_Name = ''region'', Operators = []\<rparr>,
      \<lparr>KeyColumn_Name = ''timestamp'', Operators = [''>'', ''>='', ''='', ''<'', ''<='']\<rparr>,
      \<lparr>KeyColumn_Name = ''event_category'', Operators = []\<rparr>,
      \<lparr>KeyColumn_Name = ''event_id'', Operators = []\<rparr>,
      \<lparr>KeyColumn_Name = ''aws_region'', Operators = []\<rparr>,
      \<lparr>KeyColumn_Name = ''source_ip_address'', Operators = []\<rparr>,
      \<lparr>KeyColumn_Name = ''error_code'', Operators = []\<rparr>,
      \<lparr>KeyColumn_Name = ''event_name'', Operators = []\<rparr>,
      \<lparr>KeyColumn_Name = ''read_only'', Operators = []\<rparr>,
      \<lparr>KeyColumn_Name = ''username'', Operators = []\<rparr>,
      \<lparr>KeyColumn_Name = ''user_type'', Operators = []\<rparr>,
      \<lparr>KeyColumn_Name = ''event_source'', Operators = []\<rparr>,
      \<lparr>KeyColumn_Name = ''access_key_id'', Operators = []\<rparr>]"

text \<open>The map \<open>filterQuals\<close> of \<open>buildQueryFilter\<close>, in the order it is written.\<close>

definition filterQuals :: "(string \<times> string) list" where
  "filterQuals =
     [(''access_key_id'', ''userIdentity.accessKeyId''),
      (''aws_region'', ''awsRegion''),
      (''error_code'', ''errorCode''),
      (''event_category'', ''eventCategory''),
      (''event_id'', ''eventID''),
      (''event_name'', ''eventName''),
      (''event_source'', ''eventSource''),
      (''read_only'', ''readOnly''),
      (''source_ip_address'', ''sourceIPAddress''),
      (''username'', ''userIdentity.userName''),
      (''user_type'', ''userIdentity.type'')]"

text \<open>
  \<open>buildQueryFilter\<close>. Go iterates over a map in an unspecified order: \<open>order\<close> is the order
  in which the run at hand visits the entries of \<open>filterQuals\<close>. Each filter is
  \<open>fmt.Sprintf("( $.%s = \"%s\" )", filterKey, value)\<close>.
\<close>

definition buildQueryFilter :: "(string \<times> string) list \<Rightarrow> (string \<rightharpoonup> string) \<Rightarrow> string list" where
  "buildQueryFilter order equalQuals =
     foldl (\<lambda>filters (qual, filterKey).
              case equalQuals qual of
                None \<Rightarrow> filters
              | Some v \<Rightarrow>
                  filters @ [''( $.'' @ filterKey @ '' = '' @ [CHR 0x22] @
                             GetStringValue (Some v) @ [CHR 0x22] @ '' )''])
       [] order"

text \<open>\<open>strings.Join\<close>.\<close>

fun Join :: "string list \<Rightarrow> string \<Rightarrow> string" where
  "Join [] sep = []"
| "Join [x] sep = x"
| "Join (x # xs) sep = x @ sep @ Join xs sep"

text \<open>The wrap-around of \<open>int64\<close> arithmetic.\<close>

definition int64 :: "int \<Rightarrow> int" where
  "int64 x = (x + 2 ^ 63) mod 2 ^ 64 - 2 ^ 63"

record FilterLogEventsInput =
  LogGroupName :: "string option"
  Input_Limit :: "int option"
  LogStreamNames :: "string list"
  FilterPattern :: "string option"
  StartTime :: "int option"
  EndTime :: "int option"
  Input_NextToken :: "string option"

text \<open>The body of the loop over the quals of \<open>timestamp\<close>: one (operator, seconds) qual.\<close>

definition timestampQual :: "FilterLogEventsInput \<Rightarrow> string \<times> int \<Rightarrow> FilterLogEventsInput" where
  "timestampQual input q =
     (let tsSecs = snd q;
          tsMs = int64 (tsSecs * 1000)
      in if fst q = ''='' then input\<lparr>StartTime := Some tsMs, EndTime := Some tsMs\<rparr>
         else if fst q = ''>='' \<or> fst q = ''>'' then input\<lparr>StartTime := Some tsMs\<rparr>
         else if fst q = ''<'' \<or> fst q = ''<='' then input\<lparr>EndTime := Some tsMs\<rparr>
         else input)"

text \<open>
  The request \<open>listCloudwatchLogTrailEvents\<close> builds before it creates the paginator, from
  the quals and the page size \<open>maxLimit\<close>.
\<close>

definition filterLogEventsInput ::
  "(string \<times> string) list \<Rightarrow> ('q, 'i) QueryData \<Rightarrow> int \<Rightarrow> FilterLogEventsInput" where
  "filterLogEventsInput order d maxLimit =
     (let equalQuals = EqualsQuals d;
          input0 = \<lparr>LogGroupName = Some (GetStringValue (equalQuals ''log_group_name'')),
                    Input_Limit = Some maxLimit, LogStreamNames = [], FilterPattern = None,
                    StartTime = None, EndTime = None, Input_NextToken = None\<rparr>;
          input1 = (case equalQuals ''log_stream_name'' of
                      None \<Rightarrow> input0
                    | Some v \<Rightarrow> input0\<lparr>LogStreamNames := [GetStringValue (Some v)]\<rparr>);
          filter = buildQueryFilter order equalQuals;
          queryFilter = (case equalQuals ''filter'' of
                           None \<Rightarrow> []
                         | Some v \<Rightarrow> GetStringValue (Some v));
          input2 = (if queryFilter \<noteq> [] then input1\<lparr>FilterPattern := Some queryFilter\<rparr>
                    else if 0 < length filter
                    then input1\<lparr>FilterPattern := Some (''{ '' @ Join filter '' && '' @ '' }'')\<rparr>
                    else input1)
      in case Quals d ''timestamp'' of
           None \<Rightarrow> input2
         | Some qs \<Rightarrow> foldl timestampQual input2 qs)"

text \<open>The response of \<open>FilterLogEvents\<close> and the CloudWatch Logs client.\<close>

record 'e FilterLogEventsOutput =
  Events :: "'e list"
  Output_NextToken :: "string option"

record 'e CloudWatchLogs =
  FilterLogEvents :: "FilterLogEventsInput \<Rightarrow> error + 'e FilterLogEventsOutput"

definition tableAwsCloudtrailTrailEvent_List_Tags :: tags where
  "tableAwsCloudtrailTrailEvent_List_Tags = (''logs'', ''FilterLogEvents'')"

text \<open>
  \<open>FilterLogEventsPaginator\<close> is part of the AWS SDK for Go (v2), outside this repository. It
  is modelled from its documented behaviour: the options take their \<open>Limit\<close> from the request
  and are then changed by the caller's function; there are more pages before the first
  request and as long as the last response carried a non-empty token; \<open>NextPage\<close> sends the
  request with the paginator's token and, when positive, its \<open>Limit\<close>, and with
  \<open>StopOnDuplicateToken\<close> it drops a token equal to the previous one.
\<close>

record FilterLogEventsPaginatorOptions =
  Options_Limit :: int
  StopOnDuplicateToken :: bool

record FilterLogEventsPaginator =
  Paginator_options :: FilterLogEventsPaginatorOptions
  Paginator_params :: FilterLogEventsInput
  Paginator_firstPage :: bool
  Paginator_nextToken :: "string option"

definition NewFilterLogEventsPaginator ::
  "FilterLogEventsInput \<Rightarrow> (FilterLogEventsPaginatorOptions \<Rightarrow> FilterLogEventsPaginatorOptions) \<Rightarrow>
   FilterLogEventsPaginator" where
  "NewFilterLogEventsPaginator input optFn =
     \<lparr>Paginator_options = optFn \<lparr>Options_Limit = (case Input_Limit input of None \<Rightarrow> 0 | Some l \<Rightarrow> l),
                         StopOnDuplicateToken = False\<rparr>,
      Paginator_params = input, Paginator_firstPage = True,
      Paginator_nextToken = Input_NextToken input\<rparr>"

definition HasMorePages :: "FilterLogEventsPaginator \<Rightarrow> bool" where
  "HasMorePages p = (Paginator_firstPage p \<or> (case Paginator_nextToken p of None \<Rightarrow> False | Some t \<Rightarrow> t \<noteq> []))"

definition NextPage ::
  "'e CloudWatchLogs \<Rightarrow> FilterLogEventsPaginator \<Rightarrow> (FilterLogEventsInput, 'i) QueryData \<Rightarrow>
   ((error + 'e FilterLogEventsOutput) \<times> FilterLogEventsPaginator) \<times>
   (FilterLogEventsInput, 'i) QueryData" where
  "NextPage svc p d =
     (if \<not> HasMorePages p then ((Inl (PlainError ''no more pages available''), p), d)
      else
        (let request = (Paginator_params p)
               \<lparr>Input_NextToken := Paginator_nextToken p,
                Input_Limit := (if 0 < Options_Limit (Paginator_options p)
                                then Some (Options_Limit (Paginator_options p)) else None)\<rparr>;
             d1 = issue request d
         in case FilterLogEvents svc request of
              Inl err \<Rightarrow> ((Inl err, p), d1)
            | Inr result \<Rightarrow>
                ((Inr result,
                  p\<lparr>Paginator_firstPage := False,
                    Paginator_nextToken :=
                      (if StopOnDuplicateToken (Paginator_options p) \<and> Paginator_nextToken p \<noteq> None \<and>
                          Output_NextToken result \<noteq> None \<and>
                          Paginator_nextToken p = Output_NextToken result
                       then None else Output_NextToken result)\<rparr>),
                 d1)))"

text \<open>The inner loop \<open>for _, items := range output.Events\<close>.\<close>

fun streamEvents ::
  "'e list \<Rightarrow> (FilterLogEventsInput, 'e) QueryData \<Rightarrow>
   unit outcome option \<times> (FilterLogEventsInput, 'e) QueryData" where
  "streamEvents [] d = (None, d)"
| "streamEvents (items # rest) d =
     (let d' = StreamListItem d items
      in if RowsRemaining d' = Some 0 then (Some (Returned None None), d')
         else streamEvents rest d')"

text \<open>
  The loop \<open>for paginator.HasMorePages()\<close>; the fuel bounds the number of pages requested.
  The \<open>err\<close> returned after the loop is the one of the client constructor, nil at that point.
\<close>

fun trailEventsPages ::
  "nat \<Rightarrow> 'e CloudWatchLogs \<Rightarrow> FilterLogEventsPaginator \<Rightarrow> (FilterLogEventsInput, 'e) QueryData \<Rightarrow>
   unit outcome \<times> (FilterLogEventsInput, 'e) QueryData" where
  "trailEventsPages 0 svc paginator d =
     (if HasMorePages paginator then (OutOfFuel, d) else (Returned None None, d))"
| "trailEventsPages (Suc fuel) svc paginator d =
     (if HasMorePages paginator
      then
        (let d1 = WaitForListRateLimit d
         in case NextPage svc paginator d1 of
              ((Inl err, paginator'), d2) \<Rightarrow> (Returned None (Some err), d2)
            | ((Inr output, paginator'), d2) \<Rightarrow>
                (case streamEvents (Events output) d2 of
                   (Some out, d3) \<Rightarrow> (out, d3)
                 | (None, d3) \<Rightarrow> trailEventsPages fuel svc paginator' d3))
      else (Returned None None, d))"

text \<open>
  \<open>listCloudwatchLogTrailEvents\<close>. \<open>client\<close> is what \<open>CloudWatchLogsClient(ctx, d)\<close> answered;
  the function uses the client without a nil check.
\<close>

definition listCloudwatchLogTrailEvents ::
  "nat \<Rightarrow> (string \<times> string) list \<Rightarrow> error + 'e CloudWatchLogs \<Rightarrow>
   (FilterLogEventsInput, 'e) QueryData \<Rightarrow> unit outcome \<times> (FilterLogEventsInput, 'e) QueryData" where
  "listCloudwatchLogTrailEvents fuel order client d =
     (case client of
        Inl err \<Rightarrow> (Returned None (Some err), d)
      | Inr svc \<Rightarrow>
          (let maxLimit = limitingTheResults 10000 (Limit d);
               input = filterLogEventsInput order d maxLimit;
               paginator = NewFilterLogEventsPaginator input
                 (\<lambda>opts. opts\<lparr>Options_Limit := maxLimit, StopOnDuplicateToken := True\<rparr>)
           in trailEventsPages fuel svc paginator d))"

section \<open>Per-row hydration\<close>

text \<open>
  The engine that resolves the columns of a row is part of the plugin SDK, which is not in
  the source tree; it is modelled from the spec. Spec 3: a RowContext holds the raw listed item plus
  a mapping from hydrate-function identity to its memoized result. Spec 4.4: a column that
  declares no hydrate function is read from the item, with no hydrate call; otherwise the
  declared hydrate function runs against the RowContext and its result is cached, so that
  other columns sharing that function reuse it; a hydrate failure moves the row to Failed.
  Only the requested columns are resolved. \<open>invoked\<close> logs the hydrate functions run for the
  row, in order.
\<close>

text \<open>Modelled from the spec: the RowContext (spec 3).\<close>

record ('item, 'v) RowContext =
  Item :: 'item
  memo :: "string \<rightharpoonup> 'v option"
  invoked :: "string list"
  failed :: bool

text \<open>Modelled from the spec: the resolution of one requested column (spec 4.4).\<close>

fun resolveColumn ::
  "(string \<Rightarrow> 'item \<Rightarrow> 'd \<Rightarrow> 'v outcome \<times> 'd) \<Rightarrow> string \<times> string option \<Rightarrow>
   ('item, 'v) RowContext \<times> 'd \<Rightarrow> ('item, 'v) RowContext \<times> 'd" where
  "resolveColumn hydrate (column, None) (rc, d) = (rc, d)"
| "resolveColumn hydrate (column, Some h) (rc, d) =
     (if failed rc then (rc, d)
      else case memo rc h of
             Some v \<Rightarrow> (rc, d)
           | None \<Rightarrow>
               (case hydrate h (Item rc) d of
                  (Returned v None, d') \<Rightarrow>
                    (rc\<lparr>memo := (memo rc)(h \<mapsto> v), invoked := invoked rc @ [h]\<rparr>, d')
                | (other, d') \<Rightarrow> (rc\<lparr>invoked := invoked rc @ [h], failed := True\<rparr>, d')))"

text \<open>
  Modelled from the spec: the resolution of the requested columns of a freshly listed row,
  in column order (spec 4.4).
\<close>

definition resolveRow ::
  "(string \<Rightarrow> 'item \<Rightarrow> 'd \<Rightarrow> 'v outcome \<times> 'd) \<Rightarrow> (string \<times> string option) list \<Rightarrow>
   string list \<Rightarrow> 'item \<Rightarrow> 'd \<Rightarrow> ('item, 'v) RowContext \<times> 'd" where
  "resolveRow hydrate columns projection item d =
     fold (resolveColumn hydrate) (filter (\<lambda>c. fst c \<in> set projection) columns)
       (\<lparr>Item = item, memo = Map.empty, invoked = [], failed = False\<rparr>, d)"

section \<open>Properties of traces\<close>

text \<open>
  \<open>rateLimited t tr\<close>: every provider call in \<open>tr\<close> comes immediately after a rate-limiter
  wait for the pair \<open>t\<close>.
\<close>

fun rateLimited :: "tags \<Rightarrow> ('q, 'i) event list \<Rightarrow> bool" where
  "rateLimited t [] = True"
| "rateLimited t (Wait t' # Call q # es) = (t' = t \<and> rateLimited t es)"
| "rateLimited t (Call q # es) = False"
| "rateLimited t (e # es) = rateLimited t es"

text \<open>
  \<open>callsWithinBudget b tr\<close>: with a budget of \<open>b\<close> rows at the start of \<open>tr\<close>, every provider
  call in \<open>tr\<close> is issued while fewer than \<open>b\<close> rows have been emitted, that is, no call
  follows the emission of the \<open>b\<close>-th row.
\<close>

fun callsWithinBudget :: "nat \<Rightarrow> ('q, 'i) event list \<Rightarrow> bool" where
  "callsWithinBudget b [] = True"
| "callsWithinBudget b (Emit x # es) = callsWithinBudget (b - 1) es"
| "callsWithinBudget b (Call q # es) = (0 < b \<and> callsWithinBudget b es)"
| "callsWithinBudget b (Wait t # es) = callsWithinBudget b es"

text \<open>
  \<open>budgetAtCalls b tr\<close>: the provider calls of \<open>tr\<close>, each with the row budget that was left
  when it was issued, for a budget of \<open>b\<close> rows at the start of \<open>tr\<close>.
\<close>

fun budgetAtCalls :: "nat \<Rightarrow> ('q, 'i) event list \<Rightarrow> (nat \<times> 'q) list" where
  "budgetAtCalls b [] = []"
| "budgetAtCalls b (Emit x # es) = budgetAtCalls (b - 1) es"
| "budgetAtCalls b (Call q # es) = (b, q) # budgetAtCalls b es"
| "budgetAtCalls b (Wait t # es) = budgetAtCalls b es"

section \<open>Example inputs\<close>

text \<open>Concrete scans, clients and rows, used to run the model.\<close>

definition emptyQueryData :: "('q, 'i) QueryData" where
  "emptyQueryData =
     \<lparr>Limit = None, EqualsQuals = Map.empty, KeyColumnQuals = Map.empty, Quals = Map.empty,
      Tags = ([], []), trace = []\<rparr>"

definition failingLambda :: "error \<Rightarrow> Lambda" where
  "failingLambda err =
     \<lparr>ListAliases = (\<lambda>q. Inl err), GetAlias = (\<lambda>q. Inl err), GetPolicy = (\<lambda>q. Inl err)\<rparr>"

definition notFoundGateway :: "unit APIGatewayV2" where
  "notFoundGateway =
     \<lparr>GetRoutes = (\<lambda>q. Inl (AwsError ''NotFoundException'' [])),
      GetRoute = (\<lambda>q. Inl (AwsError ''NotFoundException'' []))\<rparr>"

definition exampleCommon :: "error + awsCommonColumnData" where
  "exampleCommon = Inr \<lparr>Partition = ''aws'', Region = ''global'', AccountId = ''123456789012''\<rparr>"

definition exampleAlias :: aliasRowData where
  "exampleAlias =
     \<lparr>Alias = Some \<lparr>Name = Some ''live'', AliasArn = None, FunctionVersion = None,
                     RevisionId = None, Description = None\<rparr>,
      Row_FunctionName = Some ''f''\<rparr>"

definition policyLambda :: Lambda where
  "policyLambda =
     \<lparr>ListAliases = (\<lambda>q. Inl (PlainError ''unused'')),
      GetAlias = (\<lambda>q. Inl (PlainError ''unused'')),
      GetPolicy = (\<lambda>q. Inr \<lparr>Policy = Some ''{}'', Policy_RevisionId = None\<rparr>)\<rparr>"

definition exampleGateway :: "string APIGatewayV2" where
  "exampleGateway =
     \<lparr>GetRoutes = (\<lambda>q. if NextToken q = None
                         then Inr \<lparr>Items = [''r1'', ''r2''], Result_NextToken = Some ''t1''\<rparr>
                         else Inr \<lparr>Items = [''r3''], Result_NextToken = None\<rparr>),
      GetRoute = (\<lambda>q. Inr None)\<rparr>"

definition failingGateway :: "string APIGatewayV2" where
  "failingGateway =
     \<lparr>GetRoutes = (\<lambda>q. if NextToken q = None
                         then Inr \<lparr>Items = [''r1'', ''r2''], Result_NextToken = Some ''t1''\<rparr>
                         else Inl (AwsError ''ThrottlingException'' ''slow down'')),
      GetRoute = (\<lambda>q. Inr None)\<rparr>"

definition exampleLogs :: "string CloudWatchLogs" where
  "exampleLogs =
     \<lparr>FilterLogEvents = (\<lambda>q. if Input_NextToken q = None
                               then Inr \<lparr>Events = [''e1'', ''e2''], Output_NextToken = Some ''t1''\<rparr>
                               else Inr \<lparr>Events = [''e3''], Output_NextToken = None\<rparr>)\<rparr>"

definition failingLogs :: "string CloudWatchLogs" where
  "failingLogs =
     \<lparr>FilterLogEvents = (\<lambda>q. if Input_NextToken q = None
                               then Inr \<lparr>Events = [''e1'', ''e2''], Output_NextToken = Some ''t1''\<rparr>
                               else Inl (AwsError ''ThrottlingException'' ''slow down''))\<rparr>"

definition exampleLambda :: Lambda where
  "exampleLambda =
     \<lparr>ListAliases = (\<lambda>q. if Marker q = None
                           then Inr \<lparr>Aliases = [Alias exampleAlias], NextMarker = Some ''m1''\<rparr>
                           else Inr \<lparr>Aliases = [Alias exampleAlias], NextMarker = None\<rparr>),
      GetAlias = (\<lambda>q. Inl (PlainError ''unused'')),
      GetPolicy = (\<lambda>q. Inl (PlainError ''unused''))\<rparr>"

definition exampleCloudFront :: CloudFront where
  "exampleCloudFront =
     \<lparr>ListCloudFrontOriginAccessIdentities =
        (\<lambda>q. if List_Marker q = None
              then Inr \<lparr>Output_CloudFrontOriginAccessIdentityList =
                          Some \<lparr>List_Items = [\<lparr>Summary_Id = Some ''E1'',
                                                 Summary_S3CanonicalUserId = None,
                                                 Summary_Comment = None\<rparr>],
                                List_NextMarker = Some ''m1''\<rparr>\<rparr>
              else Inr \<lparr>Output_CloudFrontOriginAccessIdentityList =
                          Some \<lparr>List_Items = [\<lparr>Summary_Id = Some ''E2'',
                                                 Summary_S3CanonicalUserId = None,
                                                 Summary_Comment = None\<rparr>],
                                List_NextMarker = None\<rparr>\<rparr>)\<rparr>"

definition routesScan :: "int \<Rightarrow> (GetRoutesInput, string RouteInfo) QueryData" where
  "routesScan l = emptyQueryData\<lparr>Limit := Some l, Tags := tableAwsAPIGatewayV2Route_List_Tags\<rparr>"

definition trailScan :: "int \<Rightarrow> (FilterLogEventsInput, string) QueryData" where
  "trailScan l =
     emptyQueryData\<lparr>Limit := Some l, Tags := tableAwsCloudtrailTrailEvent_List_Tags,
                    EqualsQuals := [''log_group_name'' \<mapsto> ''trail'']\<rparr>"

definition trailQuals :: "string \<Rightarrow> (FilterLogEventsInput, string) QueryData" where
  "trailQuals agent =
     emptyQueryData
       \<lparr>EqualsQuals := [''log_group_name'' \<mapsto> ''trail'', ''event_name'' \<mapsto> ''CreateBucket'',
                        ''user_agent'' \<mapsto> agent],
        Quals := [''timestamp'' \<mapsto> [(''>='', 1700000000)],
                  ''user_agent'' \<mapsto> [(''='', 0)],
                  ''event_time'' \<mapsto> [(''<'', 1700000500)]]\<rparr>"

section \<open>Lemmas on traces\<close>

lemma emitted_append [simp]: "emitted (xs @ ys) = emitted xs @ emitted ys"
  by (induction xs rule: emitted.induct) simp_all

lemma calls_append [simp]: "calls (xs @ ys) = calls xs @ calls ys"
  by (induction xs rule: calls.induct) simp_all

lemma emitted_map_Emit [simp]: "emitted (map Emit xs) = xs"
  by (induction xs) simp_all

lemma calls_map_Emit [simp]: "calls (map Emit xs) = []"
  by (induction xs) simp_all

lemma rateLimited_append_Emit [simp]: "rateLimited t (tr @ [Emit x]) = rateLimited t tr"
  by (induction t tr rule: rateLimited.induct) simp_all

lemma rateLimited_append_Wait_Call [simp]:
  "rateLimited t (tr @ [Wait t', Call q]) = (rateLimited t tr \<and> t' = t)"
  by (induction t tr rule: rateLimited.induct) auto

lemma callsWithinBudget_append:
  "callsWithinBudget b (xs @ ys) =
     (callsWithinBudget b xs \<and> callsWithinBudget (b - length (emitted xs)) ys)"
  by (induction b xs rule: callsWithinBudget.induct) auto

lemma streamRoutes_trace:
  "streamRoutes api items d = (r, d') \<Longrightarrow>
     \<exists>xs. d' = d\<lparr>trace := trace d @ map Emit xs\<rparr>"
proof (induction items arbitrary: d)
  case Nil
  then show ?case by (auto intro: exI [of _ "[]"])
next
  case (Cons route rest)
  show ?case
  proof (cases "ApiId api")
    case None
    with Cons.prems show ?thesis by (auto intro: exI [of _ "[]"])
  next
    case (Some apiId)
    let ?row = "\<lparr>RouteInfo_ApiId = apiId, GetRouteOutput = route\<rparr>"
    let ?d1 = "StreamLeafListItem d ?row"
    have d1: "\<exists>ys. ?d1 = d\<lparr>trace := trace d @ map Emit ys\<rparr>"
    proof (cases "RowsRemaining d = Some 0")
      case True
      then show ?thesis
        by (auto simp: StreamLeafListItem_def StreamListItem_def intro: exI [of _ "[]"])
    next
      case False
      then show ?thesis
        by (auto simp: StreamLeafListItem_def StreamListItem_def intro: exI [of _ "[?row]"])
    qed
    then obtain ys where ys: "?d1 = d\<lparr>trace := trace d @ map Emit ys\<rparr>" ..
    show ?thesis
    proof (cases "RowsRemaining ?d1 = Some 0")
      case True
      with Cons.prems Some have "d' = ?d1" by (simp add: Let_def)
      with ys show ?thesis by blast
    next
      case False
      with Cons.prems Some have "streamRoutes api rest ?d1 = (r, d')" by (simp add: Let_def)
      from Cons.IH [OF this] obtain zs where "d' = ?d1\<lparr>trace := trace ?d1 @ map Emit zs\<rparr>" ..
      with ys have "d' = d\<lparr>trace := trace d @ map Emit (ys @ zs)\<rparr>" by simp
      then show ?thesis by blast
    qed
  qed
qed


lemma rateLimited_append_map_Emit [simp]:
  "rateLimited t (tr @ map Emit xs) = rateLimited t tr"
proof (induction xs rule: rev_induct)
  case Nil
  show ?case by simp
next
  case (snoc x xs)
  have "rateLimited t ((tr @ map Emit xs) @ [Emit x]) = rateLimited t (tr @ map Emit xs)"
    by (rule rateLimited_append_Emit)
  with snoc show ?case by simp
qed

lemma streamRoutes_budget:
  "streamRoutes api items d = (r, d') \<Longrightarrow> Limit d = Some l \<Longrightarrow>
   length (emitted (trace d)) \<le> nat l \<Longrightarrow> length (emitted (trace d')) \<le> nat l"
  by (induction items arbitrary: d)
     (auto simp: StreamLeafListItem_def StreamListItem_def RowsRemaining_def Let_def
           split: option.splits if_splits)

lemma streamRoutes_continue:
  "streamRoutes api items d = (None, d') \<Longrightarrow> Limit d = Some l \<Longrightarrow>
   length (emitted (trace d)) < nat l \<Longrightarrow> length (emitted (trace d')) < nat l"
  by (induction items arbitrary: d)
     (auto simp: StreamLeafListItem_def StreamListItem_def RowsRemaining_def Let_def
           split: option.splits if_splits)

lemma streamRoutes_outcome:
  "streamRoutes api items d = (Some out, d') \<Longrightarrow> out = Panicked \<or> out = Returned None None"
  by (induction items arbitrary: d) (auto simp: Let_def split: option.splits if_splits)

text \<open>One iteration of the outer loop, case by case.\<close>

lemma routesPages_Suc_cases:
  assumes "routesPages (Suc fuel) svc api params d = (out, d')"
  obtains
    (failed) err where "GetRoutes svc params = Inl err" "out = Returned None (Some err)"
      "d' = d\<lparr>trace := trace d @ [Wait (Tags d), Call params]\<rparr>"
  | (stopped) result xs where "GetRoutes svc params = Inr result"
      "out = Panicked \<or> out = Returned None None"
      "d' = d\<lparr>trace := trace d @ [Wait (Tags d), Call params] @ map Emit xs\<rparr>"
      "streamRoutes api (Items result) (d\<lparr>trace := trace d @ [Wait (Tags d), Call params]\<rparr>) = (Some out, d')"
  | (last) result xs where "GetRoutes svc params = Inr result" "Result_NextToken result = None"
      "out = Returned None None"
      "d' = d\<lparr>trace := trace d @ [Wait (Tags d), Call params] @ map Emit xs\<rparr>"
      "streamRoutes api (Items result) (d\<lparr>trace := trace d @ [Wait (Tags d), Call params]\<rparr>) = (None, d')"
  | (more) result xs t d3 where "GetRoutes svc params = Inr result"
      "Result_NextToken result = Some t"
      "d3 = d\<lparr>trace := trace d @ [Wait (Tags d), Call params] @ map Emit xs\<rparr>"
      "streamRoutes api (Items result) (d\<lparr>trace := trace d @ [Wait (Tags d), Call params]\<rparr>) = (None, d3)"
      "routesPages fuel svc api (params\<lparr>NextToken := Some t\<rparr>) d3 = (out, d')"
proof -
  let ?d2 = "d\<lparr>trace := trace d @ [Wait (Tags d), Call params]\<rparr>"
  have d2: "issue params (WaitForListRateLimit d) = ?d2"
    by (simp add: issue_def WaitForListRateLimit_def)
  show thesis
  proof (cases "GetRoutes svc params")
    case (Inl err)
    with assms d2 have "out = Returned None (Some err)" "d' = ?d2" by (simp_all add: Let_def)
    with Inl show thesis by (rule failed)
  next
    case (Inr result)
    obtain r d3 where s: "streamRoutes api (Items result) ?d2 = (r, d3)" by fastforce
    from streamRoutes_trace [OF s] obtain xs where
      d3: "d3 = ?d2\<lparr>trace := trace ?d2 @ map Emit xs\<rparr>" ..
    then have d3': "d3 = d\<lparr>trace := trace d @ [Wait (Tags d), Call params] @ map Emit xs\<rparr>"
      by simp
    show thesis
    proof (cases r)
      case (Some out')
      with assms d2 Inr s have eq: "out = out'" "d' = d3" by (simp_all add: Let_def)
      from streamRoutes_outcome s Some eq have "out = Panicked \<or> out = Returned None None"
        by blast
      with Inr show thesis using d3' s Some eq by (intro stopped) simp_all
    next
      case None
      show thesis
      proof (cases "Result_NextToken result")
        case nt: None
        with assms d2 Inr s None have "out = Returned None None" "d' = d3"
          by (simp_all add: Let_def)
        with Inr nt show thesis using d3' s None by (intro last) simp_all
      next
        case (Some t)
        with assms d2 Inr s None
        have "routesPages fuel svc api (params\<lparr>NextToken := Some t\<rparr>) d3 = (out, d')"
          by (simp add: Let_def)
        with Inr Some d3' show thesis using s None by (intro more) simp_all
      qed
    qed
  qed
qed

lemma rateLimited_append_page [simp]:
  "rateLimited t (tr @ Wait t' # Call q # map Emit xs) = (rateLimited t tr \<and> t' = t)"
proof -
  have "tr @ Wait t' # Call q # map Emit xs = (tr @ [Wait t', Call q]) @ map Emit xs" by simp
  then show ?thesis by (simp only: rateLimited_append_map_Emit rateLimited_append_Wait_Call)
qed

lemma callsWithinBudget_map_Emit [simp]: "callsWithinBudget b (map Emit xs)"
  by (induction xs arbitrary: b) simp_all

lemma callsWithinBudget_append_page [simp]:
  "callsWithinBudget b (tr @ Wait t # Call q # map Emit xs) =
     (callsWithinBudget b tr \<and> length (emitted tr) < b)"
  by (simp add: callsWithinBudget_append)

lemma routesPages_rateLimited:
  "routesPages fuel svc api params d = (out, d') \<Longrightarrow> rateLimited (Tags d) (trace d) \<Longrightarrow>
   rateLimited (Tags d) (trace d')"
proof (induction fuel arbitrary: params d)
  case 0
  then show ?case by simp
next
  case (Suc fuel)
  from Suc.prems(1) show ?case
  proof (cases rule: routesPages_Suc_cases)
    case (failed err)
    with Suc.prems(2) show ?thesis by simp
  next
    case (stopped result xs)
    with Suc.prems(2) show ?thesis by simp
  next
    case (last result xs)
    with Suc.prems(2) show ?thesis by simp
  next
    case (more result xs t d3)
    from more(3) Suc.prems(2) have "rateLimited (Tags d3) (trace d3)" "Tags d3 = Tags d"
      by simp_all
    with Suc.IH [OF more(5)] show ?thesis by simp
  qed
qed

lemma routesPages_budget:
  "routesPages fuel svc api params d = (out, d') \<Longrightarrow> Limit d = Some l \<Longrightarrow>
   length (emitted (trace d)) < nat l \<Longrightarrow> callsWithinBudget (nat l) (trace d) \<Longrightarrow>
   callsWithinBudget (nat l) (trace d') \<and> length (emitted (trace d')) \<le> nat l"
proof (induction fuel arbitrary: params d)
  case 0
  then show ?case by simp
next
  case (Suc fuel)
  let ?d2 = "d\<lparr>trace := trace d @ [Wait (Tags d), Call params]\<rparr>"
  have d2: "Limit ?d2 = Some l" "length (emitted (trace ?d2)) < nat l"
    using Suc.prems(2,3) by simp_all
  from Suc.prems(1) show ?case
  proof (cases rule: routesPages_Suc_cases)
    case (failed err)
    with Suc.prems show ?thesis by (simp add: callsWithinBudget_append)
  next
    case (stopped result xs)
    from streamRoutes_budget [OF stopped(4) d2(1)] d2(2)
    have "length (emitted (trace d')) \<le> nat l" by simp
    with stopped(3) Suc.prems show ?thesis by simp
  next
    case (last result xs)
    from streamRoutes_budget [OF last(5) d2(1)] d2(2)
    have "length (emitted (trace d')) \<le> nat l" by simp
    with last(4) Suc.prems show ?thesis by simp
  next
    case (more result xs t d3)
    from streamRoutes_continue [OF more(4) d2]
    have lt: "length (emitted (trace d3)) < nat l" .
    from more(3) Suc.prems have "Limit d3 = Some l" "callsWithinBudget (nat l) (trace d3)"
      by simp_all
    from Suc.IH [OF more(5) this(1) lt this(2)] show ?thesis .
  qed
qed

lemma routesPages_page_size:
  "routesPages fuel svc api params d = (out, d') \<Longrightarrow>
   \<forall>q \<in> set (calls (trace d)). MaxResults q = MaxResults params \<Longrightarrow>
   \<forall>q \<in> set (calls (trace d')). MaxResults q = MaxResults params"
proof (induction fuel arbitrary: params d)
  case 0
  then show ?case by simp
next
  case (Suc fuel)
  from Suc.prems(1) show ?case
  proof (cases rule: routesPages_Suc_cases)
    case (failed err)
    with Suc.prems(2) show ?thesis by simp
  next
    case (stopped result xs)
    with Suc.prems(2) show ?thesis by simp
  next
    case (last result xs)
    with Suc.prems(2) show ?thesis by simp
  next
    case (more result xs t d3)
    from more(3) Suc.prems(2)
    have "\<forall>q \<in> set (calls (trace d3)). MaxResults q = MaxResults (params\<lparr>NextToken := Some t\<rparr>)"
      by simp
    from Suc.IH [OF more(5) this] show ?thesis by simp
  qed
qed

lemma routesPages_failure:
  "routesPages fuel svc api params d = (out, d') \<Longrightarrow>
   \<exists>tr. trace d' = trace d @ tr \<and>
     (\<forall>q e. q \<in> set (calls tr) \<longrightarrow> GetRoutes svc q = Inl e \<longrightarrow>
        out = Returned None (Some e) \<and> (\<exists>tr'. tr = tr' @ [Call q]))"
proof (induction fuel arbitrary: params d)
  case 0
  then show ?case by simp
next
  case (Suc fuel)
  from Suc.prems(1) show ?case
  proof (cases rule: routesPages_Suc_cases)
    case (failed err)
    then show ?thesis by (intro exI [of _ "[Wait (Tags d), Call params]"]) auto
  next
    case (stopped result xs)
    then show ?thesis
      by (intro exI [of _ "[Wait (Tags d), Call params] @ map Emit xs"]) auto
  next
    case (last result xs)
    then show ?thesis
      by (intro exI [of _ "[Wait (Tags d), Call params] @ map Emit xs"]) auto
  next
    case (more result xs t d3)
    from Suc.IH [OF more(5)] obtain tr where
      tr: "trace d' = trace d3 @ tr"
        "\<And>q e. q \<in> set (calls tr) \<Longrightarrow> GetRoutes svc q = Inl e \<Longrightarrow>
           out = Returned None (Some e) \<and> (\<exists>tr'. tr = tr' @ [Call q])"
      by blast
    let ?pre = "[Wait (Tags d), Call params] @ map Emit xs"
    have "trace d' = trace d @ (?pre @ tr)" using tr(1) more(3) by simp
    moreover have "out = Returned None (Some e) \<and> (\<exists>tr'. ?pre @ tr = tr' @ [Call q])"
      if "q \<in> set (calls (?pre @ tr))" "GetRoutes svc q = Inl e" for q e
    proof -
      from that more(1) have "q \<in> set (calls tr)" by auto
      from tr(2) [OF this that(2)] obtain tr' where
        "out = Returned None (Some e)" "tr = tr' @ [Call q]" by blast
      then have "?pre @ tr = (?pre @ tr') @ [Call q]" by simp
      with \<open>out = Returned None (Some e)\<close> show ?thesis by blast
    qed
    ultimately show ?thesis by blast
  qed
qed
section \<open>Lemmas on per-row hydration\<close>

lemma resolveColumn_invariant:
  assumes "resolveColumn hydrate c (rc, d) = (rc', d')"
    and "distinct (invoked rc)" and "\<not> failed rc \<longrightarrow> set (invoked rc) \<subseteq> dom (memo rc)"
  shows "distinct (invoked rc') \<and> (\<not> failed rc' \<longrightarrow> set (invoked rc') \<subseteq> dom (memo rc'))"
proof (cases c)
  case (Pair column ho)
  show ?thesis
  proof (cases ho)
    case None
    with Pair assms show ?thesis by simp
  next
    case (Some h)
    show ?thesis
    proof (cases "failed rc \<or> memo rc h \<noteq> None")
      case True
      with Pair Some assms(1) have "rc' = rc" by (auto split: if_splits)
      with assms(2,3) show ?thesis by simp
    next
      case False
      then have fresh: "h \<notin> set (invoked rc)" using assms(3) by auto
      obtain out d1 where run: "hydrate h (Item rc) d = (out, d1)" by fastforce
      from False Pair Some assms(1) run
      have "invoked rc' = invoked rc @ [h] \<and>
            (failed rc' \<or> (memo rc' = (memo rc)(h \<mapsto> (case out of Returned v e \<Rightarrow> v))))"
        by (auto split: outcome.splits option.splits)
      with fresh assms(2,3) False show ?thesis by auto
    qed
  qed
qed

lemma fold_resolveColumn_invariant:
  "fold (resolveColumn hydrate) cs (rc, d) = (rc', d') \<Longrightarrow> distinct (invoked rc) \<Longrightarrow>
   \<not> failed rc \<longrightarrow> set (invoked rc) \<subseteq> dom (memo rc) \<Longrightarrow>
   distinct (invoked rc') \<and> (\<not> failed rc' \<longrightarrow> set (invoked rc') \<subseteq> dom (memo rc'))"
proof (induction cs arbitrary: rc d)
  case Nil
  then show ?case by simp
next
  case (Cons c cs)
  obtain rc1 d1 where step: "resolveColumn hydrate c (rc, d) = (rc1, d1)" by fastforce
  from resolveColumn_invariant [OF step Cons.prems(2,3)]
  have inv: "distinct (invoked rc1)" "\<not> failed rc1 \<longrightarrow> set (invoked rc1) \<subseteq> dom (memo rc1)"
    by simp_all
  from Cons.prems(1) step have "fold (resolveColumn hydrate) cs (rc1, d1) = (rc', d')" by simp
  from Cons.IH [OF this inv] show ?case .
qed

lemma distinct_count_list_le_1: "distinct xs \<Longrightarrow> count_list xs x \<le> 1"
  by (induction xs) auto
section \<open>Lemmas on the CloudTrail request\<close>

lemma buildQueryFilter_cong:
  "\<forall>c \<in> fst ` set order. eq c = eq' c \<Longrightarrow> buildQueryFilter order eq = buildQueryFilter order eq'"
proof -
  have "\<forall>c \<in> fst ` set order. eq c = eq' c \<Longrightarrow>
        foldl (\<lambda>filters (qual, filterKey).
              case eq qual of
                None \<Rightarrow> filters
              | Some v \<Rightarrow>
                  filters @ [''( $.'' @ filterKey @ '' = '' @ [CHR 0x22] @
                             GetStringValue (Some v) @ [CHR 0x22] @ '' )'']) acc order =
        foldl (\<lambda>filters (qual, filterKey).
              case eq' qual of
                None \<Rightarrow> filters
              | Some v \<Rightarrow>
                  filters @ [''( $.'' @ filterKey @ '' = '' @ [CHR 0x22] @
                             GetStringValue (Some v) @ [CHR 0x22] @ '' )'']) acc order" for acc
    by (induction order arbitrary: acc) (auto split: prod.splits)
  then show "\<forall>c \<in> fst ` set order. eq c = eq' c \<Longrightarrow> ?thesis"
    by (simp add: buildQueryFilter_def)
qed

lemma timestampQual_undeclared:
  "op \<notin> set [''>'', ''>='', ''='', ''<'', ''<=''] \<Longrightarrow> timestampQual input (op, v) = input"
  by (auto simp: timestampQual_def Let_def)

section \<open>Lemmas on the CloudTrail list loop\<close>

lemma streamEvents_trace:
  "streamEvents items d = (r, d') \<Longrightarrow> \<exists>xs. d' = d\<lparr>trace := trace d @ map Emit xs\<rparr>"
proof (induction items arbitrary: d)
  case Nil
  then show ?case by (auto intro: exI [of _ "[]"])
next
  case (Cons x rest)
  let ?d1 = "StreamListItem d x"
  have "\<exists>ys. ?d1 = d\<lparr>trace := trace d @ map Emit ys\<rparr>"
  proof (cases "RowsRemaining d = Some 0")
    case True
    then show ?thesis by (auto simp: StreamListItem_def intro: exI [of _ "[]"])
  next
    case False
    then show ?thesis by (auto simp: StreamListItem_def intro: exI [of _ "[x]"])
  qed
  then obtain ys where ys: "?d1 = d\<lparr>trace := trace d @ map Emit ys\<rparr>" ..
  show ?case
  proof (cases "RowsRemaining ?d1 = Some 0")
    case True
    with Cons.prems have "d' = ?d1" by (simp add: Let_def)
    with ys show ?thesis by blast
  next
    case False
    with Cons.prems have "streamEvents rest ?d1 = (r, d')" by (simp add: Let_def)
    from Cons.IH [OF this] obtain zs where "d' = ?d1\<lparr>trace := trace ?d1 @ map Emit zs\<rparr>" ..
    with ys have "d' = d\<lparr>trace := trace d @ map Emit (ys @ zs)\<rparr>" by simp
    then show ?thesis by blast
  qed
qed

lemma streamEvents_budget:
  "streamEvents items d = (r, d') \<Longrightarrow> Limit d = Some l \<Longrightarrow>
   length (emitted (trace d)) \<le> nat l \<Longrightarrow> length (emitted (trace d')) \<le> nat l"
  by (induction items arbitrary: d)
     (auto simp: StreamListItem_def RowsRemaining_def Let_def split: option.splits if_splits)

lemma streamEvents_continue:
  "streamEvents items d = (None, d') \<Longrightarrow> Limit d = Some l \<Longrightarrow>
   length (emitted (trace d)) < nat l \<Longrightarrow> length (emitted (trace d')) < nat l"
  by (induction items arbitrary: d)
     (auto simp: StreamListItem_def RowsRemaining_def Let_def split: option.splits if_splits)

lemma streamEvents_outcome:
  "streamEvents items d = (Some out, d') \<Longrightarrow> out = Returned None None"
  by (induction items arbitrary: d) (auto simp: Let_def split: if_splits)

text \<open>One iteration of the loop over the pages of the paginator, case by case.\<close>

lemma trailEventsPages_Suc_cases:
  assumes "trailEventsPages (Suc fuel) svc p d = (out, d')"
  obtains
    (finished) "\<not> HasMorePages p" "out = Returned None None" "d' = d"
  | (failed) request err where "HasMorePages p"
      "request = (Paginator_params p)
         \<lparr>Input_NextToken := Paginator_nextToken p,
          Input_Limit := (if 0 < Options_Limit (Paginator_options p)
                          then Some (Options_Limit (Paginator_options p)) else None)\<rparr>"
      "FilterLogEvents svc request = Inl err" "out = Returned None (Some err)"
      "d' = d\<lparr>trace := trace d @ [Wait (Tags d), Call request]\<rparr>"
  | (stopped) request result xs where "HasMorePages p"
      "request = (Paginator_params p)
         \<lparr>Input_NextToken := Paginator_nextToken p,
          Input_Limit := (if 0 < Options_Limit (Paginator_options p)
                          then Some (Options_Limit (Paginator_options p)) else None)\<rparr>"
      "FilterLogEvents svc request = Inr result" "out = Returned None None"
      "d' = d\<lparr>trace := trace d @ [Wait (Tags d), Call request] @ map Emit xs\<rparr>"
      "streamEvents (Events result) (d\<lparr>trace := trace d @ [Wait (Tags d), Call request]\<rparr>) = (Some out, d')"
  | (more) request result xs d3 p' where "HasMorePages p"
      "request = (Paginator_params p)
         \<lparr>Input_NextToken := Paginator_nextToken p,
          Input_Limit := (if 0 < Options_Limit (Paginator_options p)
                          then Some (Options_Limit (Paginator_options p)) else None)\<rparr>"
      "FilterLogEvents svc request = Inr result"
      "d3 = d\<lparr>trace := trace d @ [Wait (Tags d), Call request] @ map Emit xs\<rparr>"
      "streamEvents (Events result) (d\<lparr>trace := trace d @ [Wait (Tags d), Call request]\<rparr>) = (None, d3)"
      "Paginator_options p' = Paginator_options p"
      "trailEventsPages fuel svc p' d3 = (out, d')"
proof (cases "HasMorePages p")
  case False
  with assms show thesis by (intro finished) simp_all
next
  case True
  define request where "request = (Paginator_params p)
         \<lparr>Input_NextToken := Paginator_nextToken p,
          Input_Limit := (if 0 < Options_Limit (Paginator_options p)
                          then Some (Options_Limit (Paginator_options p)) else None)\<rparr>"
  let ?d2 = "d\<lparr>trace := trace d @ [Wait (Tags d), Call request]\<rparr>"
  have d2: "issue request (WaitForListRateLimit d) = ?d2"
    by (simp add: issue_def WaitForListRateLimit_def)
  show thesis
  proof (cases "FilterLogEvents svc request")
    case (Inl err)
    with True d2 have "NextPage svc p (WaitForListRateLimit d) = ((Inl err, p), ?d2)"
      by (simp add: NextPage_def Let_def request_def)
    with assms True have "out = Returned None (Some err)" "d' = ?d2" by (simp_all add: Let_def)
    with True Inl request_def show thesis by (intro failed) simp_all
  next
    case (Inr result)
    define p' where "p' = p\<lparr>Paginator_firstPage := False,
                    Paginator_nextToken :=
                      (if StopOnDuplicateToken (Paginator_options p) \<and> Paginator_nextToken p \<noteq> None \<and>
                          Output_NextToken result \<noteq> None \<and>
                          Paginator_nextToken p = Output_NextToken result
                       then None else Output_NextToken result)\<rparr>"
    from True Inr d2 have np: "NextPage svc p (WaitForListRateLimit d) = ((Inr result, p'), ?d2)"
      by (simp add: NextPage_def Let_def request_def p'_def)
    have opts: "Paginator_options p' = Paginator_options p" by (simp add: p'_def)
    obtain r d3 where s: "streamEvents (Events result) ?d2 = (r, d3)" by fastforce
    from streamEvents_trace [OF s] obtain xs where
      "d3 = ?d2\<lparr>trace := trace ?d2 @ map Emit xs\<rparr>" ..
    then have d3: "d3 = d\<lparr>trace := trace d @ [Wait (Tags d), Call request] @ map Emit xs\<rparr>"
      by simp
    show thesis
    proof (cases r)
      case (Some out')
      with assms True np s have eq: "out = out'" "d' = d3" by (simp_all add: Let_def)
      from streamEvents_outcome s Some eq have "out = Returned None None" by blast
      with True Inr request_def show thesis using d3 s Some eq by (intro stopped) simp_all
    next
      case None
      with assms True np s have "trailEventsPages fuel svc p' d3 = (out, d')"
        by (simp add: Let_def)
      with True Inr request_def d3 opts show thesis using s None by (intro more) simp_all
    qed
  qed
qed

lemma trailEventsPages_rateLimited:
  "trailEventsPages fuel svc p d = (out, d') \<Longrightarrow> rateLimited (Tags d) (trace d) \<Longrightarrow>
   rateLimited (Tags d) (trace d')"
proof (induction fuel arbitrary: p d)
  case 0
  then show ?case by (auto split: if_splits)
next
  case (Suc fuel)
  from Suc.prems(1) show ?case
  proof (cases rule: trailEventsPages_Suc_cases)
    case finished
    with Suc.prems(2) show ?thesis by simp
  next
    case (failed request err)
    with Suc.prems(2) show ?thesis by simp
  next
    case (stopped request result xs)
    with Suc.prems(2) show ?thesis by simp
  next
    case (more request result xs d3 p')
    from more(4) Suc.prems(2) have "rateLimited (Tags d3) (trace d3)" "Tags d3 = Tags d"
      by simp_all
    with Suc.IH [OF more(7)] show ?thesis by simp
  qed
qed

lemma trailEventsPages_budget:
  "trailEventsPages fuel svc p d = (out, d') \<Longrightarrow> Limit d = Some l \<Longrightarrow>
   length (emitted (trace d)) < nat l \<Longrightarrow> callsWithinBudget (nat l) (trace d) \<Longrightarrow>
   callsWithinBudget (nat l) (trace d') \<and> length (emitted (trace d')) \<le> nat l"
proof (induction fuel arbitrary: p d)
  case 0
  then show ?case by (auto split: if_splits)
next
  case (Suc fuel)
  from Suc.prems(1) show ?case
  proof (cases rule: trailEventsPages_Suc_cases)
    case finished
    with Suc.prems show ?thesis by simp
  next
    case (failed request err)
    with Suc.prems show ?thesis by (simp add: callsWithinBudget_append)
  next
    case (stopped request result xs)
    let ?d2 = "d\<lparr>trace := trace d @ [Wait (Tags d), Call request]\<rparr>"
    have "Limit ?d2 = Some l" using Suc.prems(2) by simp
    from streamEvents_budget [OF stopped(6) this] Suc.prems(3)
    have "length (emitted (trace d')) \<le> nat l" by simp
    with stopped(5) Suc.prems show ?thesis by simp
  next
    case (more request result xs d3 p')
    let ?d2 = "d\<lparr>trace := trace d @ [Wait (Tags d), Call request]\<rparr>"
    have d2: "Limit ?d2 = Some l" "length (emitted (trace ?d2)) < nat l"
      using Suc.prems(2,3) by simp_all
    from streamEvents_continue [OF more(5) d2]
    have lt: "length (emitted (trace d3)) < nat l" .
    from more(4) Suc.prems have "Limit d3 = Some l" "callsWithinBudget (nat l) (trace d3)"
      by simp_all
    from Suc.IH [OF more(7) this(1) lt this(2)] show ?thesis .
  qed
qed

lemma trailEventsPages_page_size:
  "trailEventsPages fuel svc p d = (out, d') \<Longrightarrow> 0 < Options_Limit (Paginator_options p) \<Longrightarrow>
   \<forall>q \<in> set (calls (trace d)). Input_Limit q = Some (Options_Limit (Paginator_options p)) \<Longrightarrow>
   \<forall>q \<in> set (calls (trace d')). Input_Limit q = Some (Options_Limit (Paginator_options p))"
proof (induction fuel arbitrary: p d)
  case 0
  then show ?case by (auto split: if_splits)
next
  case (Suc fuel)
  from Suc.prems(1) show ?case
  proof (cases rule: trailEventsPages_Suc_cases)
    case finished
    with Suc.prems show ?thesis by simp
  next
    case (failed request err)
    with Suc.prems(2,3) show ?thesis by simp
  next
    case (stopped request result xs)
    with Suc.prems(2,3) show ?thesis by simp
  next
    case (more request result xs d3 p')
    from more(2,4,6) Suc.prems(2,3)
    have "0 < Options_Limit (Paginator_options p')"
      "\<forall>q \<in> set (calls (trace d3)). Input_Limit q = Some (Options_Limit (Paginator_options p'))"
      by simp_all
    from Suc.IH [OF more(7) this] more(6) show ?thesis by simp
  qed
qed

lemma trailEventsPages_failure:
  "trailEventsPages fuel svc p d = (out, d') \<Longrightarrow>
   \<exists>tr. trace d' = trace d @ tr \<and>
     (\<forall>q e. q \<in> set (calls tr) \<longrightarrow> FilterLogEvents svc q = Inl e \<longrightarrow>
        out = Returned None (Some e) \<and> (\<exists>tr'. tr = tr' @ [Call q]))"
proof (induction fuel arbitrary: p d)
  case 0
  then show ?case by (auto split: if_splits)
next
  case (Suc fuel)
  from Suc.prems(1) show ?case
  proof (cases rule: trailEventsPages_Suc_cases)
    case finished
    then show ?thesis by simp
  next
    case (failed request err)
    then show ?thesis by (intro exI [of _ "[Wait (Tags d), Call request]"]) auto
  next
    case (stopped request result xs)
    then show ?thesis
      by (intro exI [of _ "[Wait (Tags d), Call request] @ map Emit xs"]) auto
  next
    case (more request result xs d3 p')
    from Suc.IH [OF more(7)] obtain tr where
      tr: "trace d' = trace d3 @ tr"
        "\<And>q e. q \<in> set (calls tr) \<Longrightarrow> FilterLogEvents svc q = Inl e \<Longrightarrow>
           out = Returned None (Some e) \<and> (\<exists>tr'. tr = tr' @ [Call q])"
      by blast
    let ?pre = "[Wait (Tags d), Call request] @ map Emit xs"
    have "trace d' = trace d @ (?pre @ tr)" using tr(1) more(4) by simp
    moreover have "out = Returned None (Some e) \<and> (\<exists>tr'. ?pre @ tr = tr' @ [Call q])"
      if "q \<in> set (calls (?pre @ tr))" "FilterLogEvents svc q = Inl e" for q e
    proof -
      from that more(3) have "q \<in> set (calls tr)" by auto
      from tr(2) [OF this that(2)] obtain tr' where
        "out = Returned None (Some e)" "tr = tr' @ [Call q]" by blast
      then have "?pre @ tr = (?pre @ tr') @ [Call q]" by simp
      with \<open>out = Returned None (Some e)\<close> show ?thesis by blast
    qed
    ultimately show ?thesis by blast
  qed
qed

section \<open>Lemmas on the page size and the row budget\<close>

lemma int32_id: "- (2 ^ 31) \<le> l \<Longrightarrow> l < 2 ^ 31 \<Longrightarrow> int32 l = l"
  by (simp add: int32_def)

lemma limitingTheResults_in_range:
  "- (2 ^ 31) \<le> l \<Longrightarrow> l < 2 ^ 31 \<Longrightarrow> limitingTheResults C (Some l) = (if l < C then max 1 l else C)"
  by (simp add: limitingTheResults_def int32_id Let_def)

lemma limitingTheResults_positive: "1 \<le> C \<Longrightarrow> 1 \<le> limitingTheResults C lim"
  by (auto simp: limitingTheResults_def Let_def split: option.splits)

lemma StreamListItem_rows:
  "Limit d = Some l \<Longrightarrow> length (emitted (trace d)) \<le> nat l \<Longrightarrow>
   Limit (StreamListItem d x) = Some l \<and> length (emitted (trace (StreamListItem d x))) \<le> nat l"
  by (auto simp: StreamListItem_def RowsRemaining_def)

lemma foldl_StreamListItem_rows:
  "Limit d = Some l \<Longrightarrow> length (emitted (trace d)) \<le> nat l \<Longrightarrow>
   Limit (foldl (\<lambda>d a. StreamListItem d (f a)) d xs) = Some l \<and>
   length (emitted (trace (foldl (\<lambda>d a. StreamListItem d (f a)) d xs))) \<le> nat l"
proof (induction xs arbitrary: d)
  case Nil
  then show ?case by simp
next
  case (Cons a xs)
  from StreamListItem_rows [OF Cons.prems, of "f a"] Cons.IH [of "StreamListItem d (f a)"]
  show ?case by simp
qed

lemma ListAliasesPages_rows:
  "ListAliasesPages fuel svc input (listLambdaAliases_page function) d = (out, d') \<Longrightarrow>
   Limit d = Some l \<Longrightarrow> length (emitted (trace d)) \<le> nat l \<Longrightarrow>
   length (emitted (trace d')) \<le> nat l"
proof (induction fuel arbitrary: input d)
  case 0
  then show ?case by simp
next
  case (Suc fuel)
  let ?d1 = "issue input d"
  have d1: "Limit ?d1 = Some l" "length (emitted (trace ?d1)) \<le> nat l"
    using Suc.prems(2,3) by (simp_all add: issue_def)
  show ?case
  proof (cases "ListAliases svc input")
    case (Inl err)
    with Suc.prems(1) have "d' = ?d1" by (simp add: Let_def)
    with d1 show ?thesis by simp
  next
    case (Inr page)
    let ?d2 = "foldl (\<lambda>d alias. StreamListItem d
                 \<lparr>Alias = alias, Row_FunctionName = FunctionName function\<rparr>) ?d1 (Aliases page)"
    from foldl_StreamListItem_rows
      [OF d1, where f = "\<lambda>alias. \<lparr>Alias = alias, Row_FunctionName = FunctionName function\<rparr>"]
    have d2: "Limit ?d2 = Some l" "length (emitted (trace ?d2)) \<le> nat l" by simp_all
    have cb: "listLambdaAliases_page function page lastPage ?d1 = (\<not> lastPage, ?d2)" for lastPage
      by (simp add: listLambdaAliases_page_def StreamLeafListItem_def)
    show ?thesis
    proof (cases "NextMarker page")
      case None
      with Suc.prems(1) Inr cb have "d' = ?d2" by (simp add: Let_def)
      with d2 show ?thesis by simp
    next
      case (Some m)
      with Suc.prems(1) Inr cb
      have "ListAliasesPages fuel svc (input\<lparr>Marker := Some m\<rparr>)
              (listLambdaAliases_page function) ?d2 = (out, d')"
        by (simp add: Let_def)
      from Suc.IH [OF this d2] show ?thesis .
    qed
  qed
qed

lemma ListCloudFrontOriginAccessIdentitiesPages_rows:
  "ListCloudFrontOriginAccessIdentitiesPages fuel svc input
     listCloudFrontOriginAccessIdentities_page d = (out, d') \<Longrightarrow>
   Limit d = Some l \<Longrightarrow> length (emitted (trace d)) \<le> nat l \<Longrightarrow>
   length (emitted (trace d')) \<le> nat l"
proof (induction fuel arbitrary: input d)
  case 0
  then show ?case by simp
next
  case (Suc fuel)
  let ?d1 = "issue input d"
  have d1: "Limit ?d1 = Some l" "length (emitted (trace ?d1)) \<le> nat l"
    using Suc.prems(2,3) by (simp_all add: issue_def)
  show ?case
  proof (cases "ListCloudFrontOriginAccessIdentities svc input")
    case (Inl err)
    with Suc.prems(1) have "d' = ?d1" by (simp add: Let_def)
    with d1 show ?thesis by simp
  next
    case (Inr page)
    show ?thesis
    proof (cases "Output_CloudFrontOriginAccessIdentityList page")
      case None
      then have cb: "listCloudFrontOriginAccessIdentities_page page isLast ?d1 = (None, ?d1)"
        for isLast
        by (simp add: listCloudFrontOriginAccessIdentities_page_def)
      with Suc.prems(1) Inr have "d' = ?d1" by (simp add: Let_def)
      with d1 show ?thesis by simp
    next
      case (Some lst)
      let ?d2 = "foldl (\<lambda>d identity. StreamListItem d (Summary identity)) ?d1 (List_Items lst)"
      from foldl_StreamListItem_rows [OF d1, where f = Summary]
      have d2: "Limit ?d2 = Some l" "length (emitted (trace ?d2)) \<le> nat l" by simp_all
      from Some have cb:
        "listCloudFrontOriginAccessIdentities_page page isLast ?d1 = (Some (\<not> isLast), ?d2)"
        for isLast
        by (simp add: listCloudFrontOriginAccessIdentities_page_def)
      show ?thesis
      proof (cases "List_NextMarker lst")
        case None
        with Suc.prems(1) Inr Some cb have "d' = ?d2" by (simp add: Let_def)
        with d2 show ?thesis by simp
      next
        case m: (Some m)
        with Suc.prems(1) Inr Some cb
        have "ListCloudFrontOriginAccessIdentitiesPages fuel svc (input\<lparr>List_Marker := Some m\<rparr>)
                listCloudFrontOriginAccessIdentities_page ?d2 = (out, d')"
          by (simp add: Let_def)
        from Suc.IH [OF this d2] show ?thesis .
      qed
    qed
  qed
qed

lemma routesPages_rows:
  "routesPages fuel svc api params d = (out, d') \<Longrightarrow> Limit d = Some l \<Longrightarrow>
   length (emitted (trace d)) \<le> nat l \<Longrightarrow> length (emitted (trace d')) \<le> nat l"
proof (induction fuel arbitrary: params d)
  case 0
  then show ?case by simp
next
  case (Suc fuel)
  let ?d2 = "d\<lparr>trace := trace d @ [Wait (Tags d), Call params]\<rparr>"
  have d2: "Limit ?d2 = Some l" "length (emitted (trace ?d2)) \<le> nat l"
    using Suc.prems(2,3) by simp_all
  from Suc.prems(1) show ?case
  proof (cases rule: routesPages_Suc_cases)
    case (failed err)
    with Suc.prems show ?thesis by simp
  next
    case (stopped result xs)
    from streamRoutes_budget [OF stopped(4) d2] show ?thesis .
  next
    case (last result xs)
    from streamRoutes_budget [OF last(5) d2] show ?thesis .
  next
    case (more result xs t d3)
    from streamRoutes_budget [OF more(4) d2] have "length (emitted (trace d3)) \<le> nat l" .
    moreover from more(3) Suc.prems(2) have "Limit d3 = Some l" by simp
    ultimately show ?thesis using Suc.IH [OF more(5)] by simp
  qed
qed

text \<open>The definitions a concrete run unfolds.\<close>

lemmas run_simps =
  listAPIGatewayV2Routes_def listCloudwatchLogTrailEvents_def listLambdaAliases_def
  listLambdaAliases_page_def limitingTheResults_def int32_def WaitForListRateLimit_def issue_def
  StreamLeafListItem_def StreamListItem_def RowsRemaining_def Let_def emptyQueryData_def
  NewFilterLogEventsPaginator_def HasMorePages_def NextPage_def filterLogEventsInput_def
  buildQueryFilter_def filterQuals_def GetStringValue_def
  exampleGateway_def failingGateway_def exampleLogs_def failingLogs_def exampleLambda_def
  exampleAlias_def tableAwsAPIGatewayV2Route_List_Tags_def tableAwsCloudtrailTrailEvent_List_Tags_def
  routesScan_def trailScan_def exampleCloudFront_def
  listCloudFrontOriginAccessIdentities_def listCloudFrontOriginAccessIdentities_page_def

lemma listCloudwatchLogTrailEvents_unfold:
  "listCloudwatchLogTrailEvents fuel order (Inr svc) d =
     trailEventsPages fuel svc
       (NewFilterLogEventsPaginator
          (filterLogEventsInput order d (limitingTheResults 10000 (Limit d)))
          (\<lambda>opts. opts\<lparr>Options_Limit := limitingTheResults 10000 (Limit d),
                            StopOnDuplicateToken := True\<rparr>)) d"
  by (simp add: listCloudwatchLogTrailEvents_def Let_def)

lemma listAPIGatewayV2Routes_unfold:
  "listAPIGatewayV2Routes fuel (Inr (Some svc)) d api =
     routesPages fuel svc api
       \<lparr>GetRoutes_ApiId = ApiId api, MaxResults = limitingTheResults 500 (Limit d),
        NextToken = None\<rparr> d"
  by (simp add: listAPIGatewayV2Routes_def Let_def)

text \<open>
  Two runs at the edge of the model. A limit that does not fit 32 bits is cut by the
  conversion \<open>int32\<close>: a limit of \<open>2 ^ 32\<close> reads as 0 and gives a page size of 1. With a
  limit of 0 \<open>listAPIGatewayV2Routes\<close> still requests one page, of size 1, and returns after
  the first route, which the row emitter has discarded.
\<close>

lemma limitingTheResults_wraps: "limitingTheResults 500 (Some (2 ^ 32)) = 1"
  by (simp add: limitingTheResults_def int32_def)

lemma listAPIGatewayV2Routes_limit_zero:
  "listAPIGatewayV2Routes (Suc (Suc (Suc 0))) (Inr (Some exampleGateway)) (routesScan 0)
     \<lparr>ApiId = Some ''a1''\<rparr> =
   (Returned None None,
    (routesScan 0)\<lparr>trace :=
      [Wait (''apigateway'', ''GetRoutes''),
       Call \<lparr>GetRoutes_ApiId = Some ''a1'', MaxResults = 1, NextToken = None\<rparr>]\<rparr>)"
  by (simp add: run_simps)

section \<open>Verified properties\<close>

text \<open>
  C1, as amended. With a row limit \<open>l\<close>, a list function that is entered with at most \<open>l\<close>
  rows emitted leaves at most \<open>l\<close> rows emitted: this holds for \<open>listAPIGatewayV2Routes\<close>,
  \<open>listLambdaAliases\<close> and \<open>listCloudFrontOriginAccessIdentities\<close>, since the row emitter
  discards what exceeds the budget. \<open>listAPIGatewayV2Routes\<close>, entered with fewer than \<open>l\<close>
  rows emitted (a fresh scan with a limit of at least 1), moreover issues no provider call
  once the \<open>l\<close>-th row has been emitted. The two other list functions never look at the
  remaining budget.
\<close>

theorem list_respects_row_limit:
  assumes "Limit dR = Some l" and "length (emitted (trace dR)) \<le> nat l"
    and "Limit dL = Some l" and "length (emitted (trace dL)) \<le> nat l"
    and "Limit dC = Some l" and "length (emitted (trace dC)) \<le> nat l"
  shows "length (emitted (trace (snd (listAPIGatewayV2Routes fuel clientR dR api)))) \<le> nat l \<and>
         length (emitted (trace (snd (listLambdaAliases fuel clientL dL func)))) \<le> nat l \<and>
         length (emitted (trace (snd (listCloudFrontOriginAccessIdentities fuel clientC dC)))) \<le> nat l \<and>
         (length (emitted (trace dR)) < nat l \<and> callsWithinBudget (nat l) (trace dR) \<longrightarrow>
            callsWithinBudget (nat l) (trace (snd (listAPIGatewayV2Routes fuel clientR dR api))))"
proof -
  obtain outR dR' where R: "listAPIGatewayV2Routes fuel clientR dR api = (outR, dR')"
    by fastforce
  obtain outL dL' where L: "listLambdaAliases fuel clientL dL func = (outL, dL')"
    by fastforce
  obtain outC dC' where C: "listCloudFrontOriginAccessIdentities fuel clientC dC = (outC, dC')"
    by fastforce
  have "length (emitted (trace dR')) \<le> nat l"
    using R assms(1,2)
    by (auto simp: listAPIGatewayV2Routes_def Let_def split: sum.splits option.splits
             dest: routesPages_rows)
  moreover have "length (emitted (trace dL')) \<le> nat l"
    using L assms(3,4)
    by (auto simp: listLambdaAliases_def split: sum.splits dest: ListAliasesPages_rows)
  moreover have "length (emitted (trace dC')) \<le> nat l"
    using C assms(5,6)
    by (auto simp: listCloudFrontOriginAccessIdentities_def split: sum.splits
             dest: ListCloudFrontOriginAccessIdentitiesPages_rows)
  moreover have "callsWithinBudget (nat l) (trace dR')"
    if "length (emitted (trace dR)) < nat l" "callsWithinBudget (nat l) (trace dR)"
    using R assms(1) that
    by (auto simp: listAPIGatewayV2Routes_def Let_def split: sum.splits option.splits
             dest: routesPages_budget)
  ultimately show ?thesis using R L C by simp
qed

theorem list_respects_row_limit_witness:
  "length (emitted (trace (snd (listAPIGatewayV2Routes (Suc (Suc (Suc 0)))
      (Inr (Some exampleGateway)) (routesScan 2) \<lparr>ApiId = Some ''a1''\<rparr>)))) \<le> nat 2 \<and>
   length (emitted (trace (snd (listLambdaAliases (Suc (Suc (Suc 0))) (Inr exampleLambda)
      (emptyQueryData\<lparr>Limit := Some 2\<rparr>) \<lparr>FunctionName = Some ''f''\<rparr>)))) \<le> nat 2 \<and>
   length (emitted (trace (snd (listCloudFrontOriginAccessIdentities (Suc (Suc (Suc 0)))
      (Inr exampleCloudFront)
      (emptyQueryData\<lparr>Limit := Some 2\<rparr>
         :: (ListCloudFrontOriginAccessIdentitiesInput, unit item) QueryData))))) \<le> nat 2 \<and>
   callsWithinBudget (nat 2) (trace (snd (listAPIGatewayV2Routes (Suc (Suc (Suc 0)))
      (Inr (Some exampleGateway)) (routesScan 2) \<lparr>ApiId = Some ''a1''\<rparr>))) \<and>
   calls (trace (snd (listAPIGatewayV2Routes (Suc (Suc (Suc 0)))
      (Inr (Some exampleGateway)) (routesScan 2) \<lparr>ApiId = Some ''a1''\<rparr>))) =
     [\<lparr>GetRoutes_ApiId = Some ''a1'', MaxResults = 2, NextToken = None\<rparr>]"
  using list_respects_row_limit
    [where dR = "routesScan 2" and l = 2 and dL = "emptyQueryData\<lparr>Limit := Some 2\<rparr>"
       and dC = "emptyQueryData\<lparr>Limit := Some 2\<rparr>
                   :: (ListCloudFrontOriginAccessIdentitiesInput, unit item) QueryData"
       and fuel = "Suc (Suc (Suc 0))" and clientR = "Inr (Some exampleGateway)"
       and api = "\<lparr>ApiId = Some ''a1''\<rparr>" and clientL = "Inr exampleLambda"
       and func = "\<lparr>FunctionName = Some ''f''\<rparr>" and clientC = "Inr exampleCloudFront"]
  by (simp add: run_simps)

text \<open>
  The property as the specification states it, for every table's list function, fails on \<open>listLambdaAliases\<close>: with a
  limit of 1 and two pages of one alias each, the first alias is emitted, which exhausts the
  budget, and the second page is requested all the same.
\<close>

theorem listLambdaAliases_calls_after_limit:
  "listLambdaAliases (Suc (Suc (Suc 0))) (Inr exampleLambda)
     (emptyQueryData\<lparr>Limit := Some 1\<rparr>) \<lparr>FunctionName = Some ''f''\<rparr> =
   (Returned None None,
    emptyQueryData\<lparr>Limit := Some 1,
      trace := [Call \<lparr>ListAliases_FunctionName = Some ''f'', Marker = None\<rparr>,
                Emit \<lparr>Alias = Alias exampleAlias, Row_FunctionName = Some ''f''\<rparr>,
                Call \<lparr>ListAliases_FunctionName = Some ''f'', Marker = Some ''m1''\<rparr>]\<rparr>) \<and>
   \<not> callsWithinBudget 1
       [Call \<lparr>ListAliases_FunctionName = Some ''f'', Marker = None\<rparr>,
        Emit \<lparr>Alias = Alias exampleAlias, Row_FunctionName = Some ''f''\<rparr>,
        Call \<lparr>ListAliases_FunctionName = Some ''f'', Marker = Some ''m1''\<rparr>]"
  by (simp add: run_simps)

text \<open>
  C2. For every row, every column list, every projection and every hydrate function
  identity \<open>h\<close>, resolving the requested columns of the row runs \<open>h\<close> at most once, however
  many requested columns declare it: the first column that needs \<open>h\<close> runs it and caches the
  result in the RowContext, the later ones reuse it.
\<close>

theorem hydrate_at_most_once_per_row:
  "count_list (invoked (fst (resolveRow hydrate columns projection item d))) h \<le> 1"
proof -
  obtain rc' d' where run: "resolveRow hydrate columns projection item d = (rc', d')"
    by fastforce
  then have "distinct (invoked rc')"
    unfolding resolveRow_def by (auto dest: fold_resolveColumn_invariant)
  then have "count_list (invoked rc') h \<le> 1"
    by (rule distinct_count_list_le_1)
  with run show ?thesis by simp
qed

text \<open>
  For \<open>aws_lambda_alias\<close>, a projection with both \<open>policy\<close> and \<open>policy_std\<close> runs
  \<open>getLambdaAliasPolicy\<close> once and sends exactly one \<open>GetPolicy\<close> request for the row.
\<close>

theorem hydrate_at_most_once_per_row_witness:
  "count_list (invoked (fst (resolveRow (\<lambda>h item d. getLambdaAliasPolicy (Inr policyLambda) d item)
      tableAwsLambdaAlias_Columns [''name'', ''policy'', ''policy_std''] exampleAlias
      (emptyQueryData :: (GetPolicyInput, unit) QueryData)))) ''getLambdaAliasPolicy'' \<le> 1 \<and>
   invoked (fst (resolveRow (\<lambda>h item d. getLambdaAliasPolicy (Inr policyLambda) d item)
      tableAwsLambdaAlias_Columns [''name'', ''policy'', ''policy_std''] exampleAlias
      (emptyQueryData :: (GetPolicyInput, unit) QueryData))) = [''getLambdaAliasPolicy''] \<and>
   calls (trace (snd (resolveRow (\<lambda>h item d. getLambdaAliasPolicy (Inr policyLambda) d item)
      tableAwsLambdaAlias_Columns [''name'', ''policy'', ''policy_std''] exampleAlias
      (emptyQueryData :: (GetPolicyInput, unit) QueryData)))) =
     [\<lparr>GetPolicy_FunctionName = Some ''f'', Qualifier = Some ''live''\<rparr>]"
  using hydrate_at_most_once_per_row
    [of "\<lambda>h item d. getLambdaAliasPolicy (Inr policyLambda) d item" tableAwsLambdaAlias_Columns
        "[''name'', ''policy'', ''policy_std'']" exampleAlias
        "emptyQueryData :: (GetPolicyInput, unit) QueryData" "''getLambdaAliasPolicy''"]
  by (simp add: resolveRow_def tableAwsLambdaAlias_Columns_def getLambdaAliasPolicy_def
      exampleAlias_def policyLambda_def emptyQueryData_def issue_def Let_def)

text \<open>
  C3. Whatever the fuel, the provider and the state a list function starts from, the trace
  at its end is the trace at its start followed by new events, so that the rows streamed
  from earlier pages stay delivered; and if one of the new provider calls failed with error
  \<open>e\<close>, then the function has returned \<open>(nil, e)\<close> and that call is the last event: nothing
  is requested or emitted after the failure, and a run that returns success has no failed
  call. This holds for \<open>listAPIGatewayV2Routes\<close> and for \<open>listCloudwatchLogTrailEvents\<close>; both
  also return the error of the client constructor.
\<close>

theorem list_failure_is_returned:
  "(\<exists>tr. trace (snd (listAPIGatewayV2Routes fuel (Inr (Some svcR)) dR api)) = trace dR @ tr \<and>
      (\<forall>q e. q \<in> set (calls tr) \<longrightarrow> GetRoutes svcR q = Inl e \<longrightarrow>
         fst (listAPIGatewayV2Routes fuel (Inr (Some svcR)) dR api) = Returned None (Some e) \<and>
         (\<exists>tr'. tr = tr' @ [Call q]))) \<and>
   (\<exists>tr. trace (snd (listCloudwatchLogTrailEvents fuel' order (Inr svcT) dT)) = trace dT @ tr \<and>
      (\<forall>q e. q \<in> set (calls tr) \<longrightarrow> FilterLogEvents svcT q = Inl e \<longrightarrow>
         fst (listCloudwatchLogTrailEvents fuel' order (Inr svcT) dT) = Returned None (Some e) \<and>
         (\<exists>tr'. tr = tr' @ [Call q]))) \<and>
   listAPIGatewayV2Routes fuel (Inl err) dR api = (Returned None (Some err), dR) \<and>
   listCloudwatchLogTrailEvents fuel' order (Inl err) dT = (Returned None (Some err), dT)"
proof -
  obtain outR dR' where R: "listAPIGatewayV2Routes fuel (Inr (Some svcR)) dR api = (outR, dR')"
    by fastforce
  obtain outT dT' where T: "listCloudwatchLogTrailEvents fuel' order (Inr svcT) dT = (outT, dT')"
    by fastforce
  from R have "routesPages fuel svcR api
      \<lparr>GetRoutes_ApiId = ApiId api, MaxResults = limitingTheResults 500 (Limit dR),
       NextToken = None\<rparr> dR = (outR, dR')"
    by (simp add: listAPIGatewayV2Routes_def Let_def)
  then have "\<exists>tr. trace dR' = trace dR @ tr \<and>
      (\<forall>q e. q \<in> set (calls tr) \<longrightarrow> GetRoutes svcR q = Inl e \<longrightarrow>
         outR = Returned None (Some e) \<and> (\<exists>tr'. tr = tr' @ [Call q]))"
    by (rule routesPages_failure)
  moreover from T have "trailEventsPages fuel' svcT
      (NewFilterLogEventsPaginator
         (filterLogEventsInput order dT (limitingTheResults 10000 (Limit dT)))
         (\<lambda>opts. opts\<lparr>Options_Limit := limitingTheResults 10000 (Limit dT),
                           StopOnDuplicateToken := True\<rparr>)) dT = (outT, dT')"
    by (simp add: listCloudwatchLogTrailEvents_def Let_def)
  then have "\<exists>tr. trace dT' = trace dT @ tr \<and>
      (\<forall>q e. q \<in> set (calls tr) \<longrightarrow> FilterLogEvents svcT q = Inl e \<longrightarrow>
         outT = Returned None (Some e) \<and> (\<exists>tr'. tr = tr' @ [Call q]))"
    by (rule trailEventsPages_failure)
  ultimately show ?thesis
    using R T by (simp add: listAPIGatewayV2Routes_def listCloudwatchLogTrailEvents_def)
qed

theorem list_failure_is_returned_witness:
  "listAPIGatewayV2Routes (Suc (Suc (Suc 0))) (Inr (Some failingGateway)) (routesScan 10)
     \<lparr>ApiId = Some ''a1''\<rparr> =
   (Returned None (Some (AwsError ''ThrottlingException'' ''slow down'')),
    (routesScan 10)\<lparr>trace :=
      [Wait (''apigateway'', ''GetRoutes''),
       Call \<lparr>GetRoutes_ApiId = Some ''a1'', MaxResults = 10, NextToken = None\<rparr>,
       Emit \<lparr>RouteInfo_ApiId = ''a1'', GetRouteOutput = ''r1''\<rparr>,
       Emit \<lparr>RouteInfo_ApiId = ''a1'', GetRouteOutput = ''r2''\<rparr>,
       Wait (''apigateway'', ''GetRoutes''),
       Call \<lparr>GetRoutes_ApiId = Some ''a1'', MaxResults = 10, NextToken = Some ''t1''\<rparr>]\<rparr>) \<and>
   fst (listCloudwatchLogTrailEvents (Suc (Suc (Suc 0))) filterQuals (Inr failingLogs)
     (trailScan 10)) = Returned None (Some (AwsError ''ThrottlingException'' ''slow down'')) \<and>
   emitted (trace (snd (listCloudwatchLogTrailEvents (Suc (Suc (Suc 0))) filterQuals
     (Inr failingLogs) (trailScan 10)))) = [''e1'', ''e2'']"
  using list_failure_is_returned
    [where fuel = "Suc (Suc (Suc 0))" and svcR = failingGateway and dR = "routesScan 10"
       and api = "\<lparr>ApiId = Some ''a1''\<rparr>" and fuel' = "Suc (Suc (Suc 0))"
       and order = filterQuals and svcT = failingLogs and dT = "trailScan 10"]
  by (simp add: run_simps)

text \<open>
  C4, as amended. The page size is computed once, before the first request, from the
  caller's initial limit: it is the ceiling \<open>C\<close> when there is no limit, and
  \<open>max 1 (min C l)\<close> for a limit \<open>l\<close> that fits 32 bits, so a limit below 1 is clamped to 1
  and a limit of at least \<open>C\<close> leaves the ceiling in effect. Every request of
  \<open>listAPIGatewayV2Routes\<close> (ceiling 500) and of \<open>listCloudwatchLogTrailEvents\<close> (ceiling 10000)
  carries that same page size, whatever has been emitted in between.
\<close>

theorem page_size_from_initial_limit:
  assumes "1 \<le> C" and "- (2 ^ 31) \<le> l" and "l < 2 ^ 31"
    and "\<forall>q \<in> set (calls (trace dR)). MaxResults q = limitingTheResults 500 (Limit dR)"
    and "\<forall>q \<in> set (calls (trace dT)).
           Input_Limit q = Some (limitingTheResults 10000 (Limit dT))"
  shows "limitingTheResults C None = C \<and>
         limitingTheResults C (Some l) = max 1 (min C l) \<and>
         (\<forall>q \<in> set (calls (trace (snd (listAPIGatewayV2Routes fuel clientR dR api)))).
            MaxResults q = limitingTheResults 500 (Limit dR)) \<and>
         (\<forall>q \<in> set (calls (trace (snd (listCloudwatchLogTrailEvents fuel' order clientT dT)))).
            Input_Limit q = Some (limitingTheResults 10000 (Limit dT)))"
proof -
  have "limitingTheResults C None = C" by (simp add: limitingTheResults_def)
  moreover have "limitingTheResults C (Some l) = max 1 (min C l)"
    using assms(1-3) by (simp add: limitingTheResults_in_range)
  moreover have "\<forall>q \<in> set (calls (trace (snd (listAPIGatewayV2Routes fuel clientR dR api)))).
            MaxResults q = limitingTheResults 500 (Limit dR)"
  proof (cases clientR)
    case (Inl err)
    with assms(4) show ?thesis by (simp add: listAPIGatewayV2Routes_def)
  next
    case (Inr c)
    show ?thesis
    proof (cases c)
      case None
      with Inr assms(4) show ?thesis by (simp add: listAPIGatewayV2Routes_def)
    next
      case (Some svc)
      let ?params = "\<lparr>GetRoutes_ApiId = ApiId api,
                       MaxResults = limitingTheResults 500 (Limit dR), NextToken = None\<rparr>"
      obtain out d' where run: "routesPages fuel svc api ?params dR = (out, d')" by fastforce
      from assms(4) have "\<forall>q \<in> set (calls (trace dR)). MaxResults q = MaxResults ?params"
        by simp
      from routesPages_page_size [OF run this] run Inr Some show ?thesis
        by (simp add: listAPIGatewayV2Routes_unfold)
    qed
  qed
  moreover have
    "\<forall>q \<in> set (calls (trace (snd (listCloudwatchLogTrailEvents fuel' order clientT dT)))).
            Input_Limit q = Some (limitingTheResults 10000 (Limit dT))"
  proof (cases clientT)
    case (Inl err)
    with assms(5) show ?thesis by (simp add: listCloudwatchLogTrailEvents_def)
  next
    case (Inr svc)
    let ?m = "limitingTheResults 10000 (Limit dT)"
    let ?p = "NewFilterLogEventsPaginator (filterLogEventsInput order dT ?m)
                (\<lambda>opts. opts\<lparr>Options_Limit := ?m, StopOnDuplicateToken := True\<rparr>)"
    have m: "Options_Limit (Paginator_options ?p) = ?m"
      by (simp add: NewFilterLogEventsPaginator_def)
    have pos: "0 < Options_Limit (Paginator_options ?p)"
      using limitingTheResults_positive [of 10000 "Limit dT"] by (simp add: m)
    obtain out d' where run: "trailEventsPages fuel' svc ?p dT = (out, d')" by fastforce
    from assms(5) m
    have "\<forall>q \<in> set (calls (trace dT)). Input_Limit q = Some (Options_Limit (Paginator_options ?p))"
      by simp
    from trailEventsPages_page_size [OF run pos this] run Inr m show ?thesis
      by (simp add: listCloudwatchLogTrailEvents_unfold)
  qed
  ultimately show ?thesis by blast
qed

theorem page_size_from_initial_limit_witness:
  "limitingTheResults 500 None = 500 \<and>
   limitingTheResults 500 (Some 0) = 1 \<and>
   limitingTheResults 500 (Some 0) = max 1 (min 500 0) \<and>
   map MaxResults (calls (trace (snd (listAPIGatewayV2Routes (Suc (Suc (Suc 0)))
      (Inr (Some exampleGateway)) (routesScan 10) \<lparr>ApiId = Some ''a1''\<rparr>)))) = [10, 10] \<and>
   map Input_Limit (calls (trace (snd (listCloudwatchLogTrailEvents (Suc (Suc (Suc 0)))
      filterQuals (Inr exampleLogs) (trailScan 700000)))))  = [Some 10000, Some 10000]"
  using page_size_from_initial_limit
    [where C = 500 and l = 0 and dR = "routesScan 10" and dT = "trailScan 700000"
       and fuel = "Suc (Suc (Suc 0))" and clientR = "Inr (Some exampleGateway)"
       and api = "\<lparr>ApiId = Some ''a1''\<rparr>" and fuel' = "Suc (Suc (Suc 0))"
       and order = filterQuals and clientT = "Inr exampleLogs"]
  by (simp add: run_simps)

text \<open>
  The property as the specification states it fails where it asks for the remaining budget on every page: with a
  limit of 10 and a first page of two routes, the second request is issued with a budget of
  8 rows left and still asks for 10.
\<close>

theorem page_size_ignores_remaining_budget:
  "map (\<lambda>(budget, q). (budget, MaxResults q))
     (budgetAtCalls 10 (trace (snd (listAPIGatewayV2Routes (Suc (Suc (Suc 0)))
        (Inr (Some exampleGateway)) (routesScan 10) \<lparr>ApiId = Some ''a1''\<rparr>)))) =
   [(10, 10), (8, 10)] \<and> min 500 (8 :: int) \<noteq> 10"
  by (simp add: run_simps)

text \<open>
  C5, as amended. For the Get operation of \<open>aws_lambda_alias\<close>: when the key \<open>name\<close> or the key
  \<open>function_name\<close> is missing or empty (a missing qual reads as the empty string), or the key
  \<open>region\<close> differs from the region of the current matrix entry, \<open>getLambdaAlias\<close> returns
  \<open>(nil, nil)\<close>, that is no row and no error, and leaves the scan state untouched: no
  provider call is issued.
\<close>

theorem getLambdaAlias_guard:
  assumes "GetStringValue (KeyColumnQuals d ''name'') = [] \<or>
           GetStringValue (KeyColumnQuals d ''function_name'') = [] \<or>
           GetStringValue (KeyColumnQuals d ''region'') \<noteq> matrixRegion"
  shows "getLambdaAlias matrixRegion client d = (Returned None None, d)"
  using assms by (auto simp: getLambdaAlias_def Let_def)

theorem getLambdaAlias_guard_witness:
  "getLambdaAlias ''us-east-1'' (Inr (failingLambda (PlainError ''unreachable'')))
     ((emptyQueryData :: (GetAliasInput, unit) QueryData)
        \<lparr>KeyColumnQuals := [''name'' \<mapsto> ''live'', ''region'' \<mapsto> ''us-east-1'']\<rparr>) =
   (Returned None None,
    (emptyQueryData :: (GetAliasInput, unit) QueryData)
        \<lparr>KeyColumnQuals := [''name'' \<mapsto> ''live'', ''region'' \<mapsto> ''us-east-1'']\<rparr>)"
  by (rule getLambdaAlias_guard) (simp add: GetStringValue_def emptyQueryData_def)

text \<open>
  The property as the specification states it, for every Get request, fails on the Get operation of
  \<open>aws_api_gatewayv2_route\<close>, which has no such guard: with the key \<open>route_id\<close> supplied empty
  it sends a \<open>GetRoute\<close> request with an empty route id.
\<close>

theorem getAPIGatewayV2Route_empty_key_calls_provider:
  "calls (trace (snd (getAPIGatewayV2Route (Inr (Some notFoundGateway))
     ((emptyQueryData :: (GetRouteInput, unit) QueryData)
        \<lparr>EqualsQuals := [''api_id'' \<mapsto> ''a1'', ''route_id'' \<mapsto> []]\<rparr>)))) =
   [\<lparr>GetRoute_ApiId = Some ''a1'', GetRoute_RouteId = Some []\<rparr>]"
  by (simp add: getAPIGatewayV2Route_def GetStringValue_def emptyQueryData_def
      notFoundGateway_def issue_def Let_def)

text \<open>
  C6. A matrix entry whose region does not support the service: the client constructor
  answers a nil client. Then the List operation and the Get operation of
  \<open>aws_api_gatewayv2_route\<close> both return \<open>(nil, nil)\<close>, that is no row and no error, and leave
  the scan state untouched: no row is emitted and no provider call is issued, whatever the
  fuel.
\<close>

theorem unsupported_region_no_rows_no_calls:
  "listAPIGatewayV2Routes fuel (Inr None) d api = (Returned None None, d) \<and>
   getAPIGatewayV2Route (Inr None) d' = (Returned None None, d')"
  by (simp add: listAPIGatewayV2Routes_def getAPIGatewayV2Route_def)

text \<open>
  C7. The request \<open>listCloudwatchLogTrailEvents\<close> sends to the provider is a function of the
  predicates on the declared key columns alone: two predicate sets that agree on the equality
  quals of the declared key columns and on the quals of \<open>timestamp\<close> give the same request,
  whatever predicates they carry on other columns and in whatever order the filter map is
  visited. Every declared key column supports equality only, except \<open>timestamp\<close>, which
  declares the range operators; a \<open>timestamp\<close> qual with an operator outside the declared
  ones leaves the request unchanged.
\<close>

theorem pushdown_only_declared_key_columns:
  assumes "set order = set filterQuals"
    and "\<forall>c \<in> set (map KeyColumn_Name tableAwsCloudtrailEventsListKeyColumns).
           EqualsQuals d c = EqualsQuals d' c"
    and "Quals d ''timestamp'' = Quals d' ''timestamp''"
  shows "filterLogEventsInput order d maxLimit = filterLogEventsInput order d' maxLimit \<and>
         (\<forall>k \<in> set tableAwsCloudtrailEventsListKeyColumns.
            supportedOperators k =
              (if KeyColumn_Name k = ''timestamp'' then [''>'', ''>='', ''='', ''<'', ''<='']
               else [''=''])) \<and>
         (\<forall>op v input. op \<notin> set [''>'', ''>='', ''='', ''<'', ''<=''] \<longrightarrow>
            timestampQual input (op, v) = input)"
proof -
  have keys: "fst ` set filterQuals \<subseteq> set (map KeyColumn_Name tableAwsCloudtrailEventsListKeyColumns)"
    by (simp add: filterQuals_def tableAwsCloudtrailEventsListKeyColumns_def)
  with assms(1,2) have "\<forall>c \<in> fst ` set order. EqualsQuals d c = EqualsQuals d' c" by auto
  then have bq: "buildQueryFilter order (EqualsQuals d) = buildQueryFilter order (EqualsQuals d')"
    by (rule buildQueryFilter_cong)
  from assms(2) have eqs: "EqualsQuals d ''log_group_name'' = EqualsQuals d' ''log_group_name''"
    "EqualsQuals d ''log_stream_name'' = EqualsQuals d' ''log_stream_name''"
    "EqualsQuals d ''filter'' = EqualsQuals d' ''filter''"
    by (simp_all add: tableAwsCloudtrailEventsListKeyColumns_def)
  have "filterLogEventsInput order d maxLimit = filterLogEventsInput order d' maxLimit"
    by (simp only: filterLogEventsInput_def Let_def bq eqs assms(3))
  moreover have "\<forall>k \<in> set tableAwsCloudtrailEventsListKeyColumns.
            supportedOperators k =
              (if KeyColumn_Name k = ''timestamp'' then [''>'', ''>='', ''='', ''<'', ''<='']
               else [''=''])"
    by (simp add: tableAwsCloudtrailEventsListKeyColumns_def supportedOperators_def)
  ultimately show ?thesis using timestampQual_undeclared by blast
qed

theorem pushdown_only_declared_key_columns_witness:
  "filterLogEventsInput filterQuals (trailQuals ''curl'') 10000 =
   filterLogEventsInput filterQuals
     ((trailQuals ''aws-cli'')\<lparr>Quals := [''timestamp'' \<mapsto> [(''>='', 1700000000)]]\<rparr>) 10000 \<and>
   filterLogEventsInput filterQuals (trailQuals ''curl'') 10000 =
     \<lparr>LogGroupName = Some ''trail'', Input_Limit = Some 10000, LogStreamNames = [],
      FilterPattern = Some (''{ ( $.eventName = '' @ [CHR 0x22] @ ''CreateBucket'' @
                             [CHR 0x22] @ '' ) }''),
      StartTime = Some 1700000000000, EndTime = None, Input_NextToken = None\<rparr>"
  using pushdown_only_declared_key_columns
    [where order = filterQuals and d = "trailQuals ''curl''"
       and d' = "(trailQuals ''aws-cli'')\<lparr>Quals := [''timestamp'' \<mapsto> [(''>='', 1700000000)]]\<rparr>"
       and maxLimit = 10000]
  by (simp add: trailQuals_def tableAwsCloudtrailEventsListKeyColumns_def
      filterLogEventsInput_def buildQueryFilter_def filterQuals_def GetStringValue_def
      timestampQual_def int64_def emptyQueryData_def Let_def)

text \<open>
  C8. The two list operations that carry (service, action) tags,
  \<open>listAPIGatewayV2Routes\<close> (apigateway, GetRoutes) and \<open>listCloudwatchLogTrailEvents\<close> (logs,
  FilterLogEvents), block on the rate limiter for their pair immediately before every
  provider call: in the trace of a scan set up with the table's tags, each call comes
  right after a wait for that pair.
\<close>

theorem tagged_list_calls_wait_first:
  assumes "Tags dR = tableAwsAPIGatewayV2Route_List_Tags"
    and "rateLimited (Tags dR) (trace dR)"
    and "Tags dT = tableAwsCloudtrailTrailEvent_List_Tags"
    and "rateLimited (Tags dT) (trace dT)"
  shows "rateLimited (''apigateway'', ''GetRoutes'')
           (trace (snd (listAPIGatewayV2Routes fuel clientR dR api))) \<and>
         rateLimited (''logs'', ''FilterLogEvents'')
           (trace (snd (listCloudwatchLogTrailEvents fuel' order clientT dT)))"
proof -
  have "rateLimited (Tags dR) (trace (snd (listAPIGatewayV2Routes fuel clientR dR api)))"
  proof (cases clientR)
    case (Inl err)
    with assms(2) show ?thesis by (simp add: listAPIGatewayV2Routes_def)
  next
    case (Inr c)
    show ?thesis
    proof (cases c)
      case None
      with Inr assms(2) show ?thesis by (simp add: listAPIGatewayV2Routes_def)
    next
      case (Some svc)
      obtain out d' where run: "listAPIGatewayV2Routes fuel (Inr (Some svc)) dR api = (out, d')"
        by fastforce
      then have "rateLimited (Tags dR) (trace d')"
        unfolding listAPIGatewayV2Routes_unfold using assms(2) by (rule routesPages_rateLimited)
      with run Inr Some show ?thesis by simp
    qed
  qed
  moreover
  have "rateLimited (Tags dT) (trace (snd (listCloudwatchLogTrailEvents fuel' order clientT dT)))"
  proof (cases clientT)
    case (Inl err)
    with assms(4) show ?thesis by (simp add: listCloudwatchLogTrailEvents_def)
  next
    case (Inr svc)
    obtain out d' where run: "listCloudwatchLogTrailEvents fuel' order (Inr svc) dT = (out, d')"
      by fastforce
    then have "rateLimited (Tags dT) (trace d')"
      unfolding listCloudwatchLogTrailEvents_unfold using assms(4)
      by (rule trailEventsPages_rateLimited)
    with run Inr show ?thesis by simp
  qed
  ultimately show ?thesis
    using assms(1,3)
    by (simp add: tableAwsAPIGatewayV2Route_List_Tags_def tableAwsCloudtrailTrailEvent_List_Tags_def)
qed

theorem tagged_list_calls_wait_first_witness:
  "rateLimited (''apigateway'', ''GetRoutes'')
     (trace (snd (listAPIGatewayV2Routes (Suc (Suc (Suc 0))) (Inr (Some exampleGateway))
        (routesScan 10) \<lparr>ApiId = Some ''a1''\<rparr>))) \<and>
   trace (snd (listAPIGatewayV2Routes (Suc (Suc (Suc 0))) (Inr (Some exampleGateway))
        (routesScan 10) \<lparr>ApiId = Some ''a1''\<rparr>)) =
     [Wait (''apigateway'', ''GetRoutes''),
      Call \<lparr>GetRoutes_ApiId = Some ''a1'', MaxResults = 10, NextToken = None\<rparr>,
      Emit \<lparr>RouteInfo_ApiId = ''a1'', GetRouteOutput = ''r1''\<rparr>,
      Emit \<lparr>RouteInfo_ApiId = ''a1'', GetRouteOutput = ''r2''\<rparr>,
      Wait (''apigateway'', ''GetRoutes''),
      Call \<lparr>GetRoutes_ApiId = Some ''a1'', MaxResults = 10, NextToken = Some ''t1''\<rparr>,
      Emit \<lparr>RouteInfo_ApiId = ''a1'', GetRouteOutput = ''r3''\<rparr>] \<and>
   rateLimited (''logs'', ''FilterLogEvents'')
     (trace (snd (listCloudwatchLogTrailEvents (Suc (Suc (Suc 0))) filterQuals
        (Inr exampleLogs) (trailScan 10)))) \<and>
   map (\<lambda>e. case e of Wait t \<Rightarrow> ''wait'' | Call q \<Rightarrow> ''call'' | Emit x \<Rightarrow> x)
     (trace (snd (listCloudwatchLogTrailEvents (Suc (Suc (Suc 0))) filterQuals
        (Inr exampleLogs) (trailScan 10)))) =
     [''wait'', ''call'', ''e1'', ''e2'', ''wait'', ''call'', ''e3'']"
  using tagged_list_calls_wait_first
    [where dR = "routesScan 10" and dT = "trailScan 10"
       and fuel = "Suc (Suc (Suc 0))" and clientR = "Inr (Some exampleGateway)"
       and api = "\<lparr>ApiId = Some ''a1''\<rparr>" and fuel' = "Suc (Suc (Suc 0))"
       and order = filterQuals and clientT = "Inr exampleLogs"]
  by (simp add: run_simps)

text \<open>
  C9, as amended. \<open>originAccessIdentityID\<close> returns nil for an item that is neither a
  \<open>*GetCloudFrontOriginAccessIdentityOutput\<close> nor an \<open>*OriginAccessIdentitySummary\<close>, and the ARN
  hydrate panics on it. When the row item is one of those two variants and carries an
  identity id (a summary with a non-nil \<open>Id\<close>; an output with a non-nil
  \<open>CloudFrontOriginAccessIdentity\<close> whose \<open>Id\<close> is non-nil), the ARN hydrate does not panic.
\<close>

theorem arn_hydrate_total_on_identified_items:
  "originAccessIdentityID (Other x) = Value None \<and>
   getCloudFrontOriginAccessIdentityARN common (Other x) = Panicked \<and>
   ((\<exists>s i. item = Summary s \<and> Summary_Id s = Some i) \<or>
    (\<exists>out identity i. item = GetOutput out \<and>
        Output_CloudFrontOriginAccessIdentity out = Some identity \<and> Identity_Id identity = Some i)
    \<longrightarrow> getCloudFrontOriginAccessIdentityARN common item \<noteq> Panicked)"
  by (auto simp: getCloudFrontOriginAccessIdentityARN_def split: sum.splits)

theorem arn_hydrate_total_on_identified_items_witness:
  "getCloudFrontOriginAccessIdentityARN exampleCommon
     (Summary \<lparr>Summary_Id = Some ''E2ABC'', Summary_S3CanonicalUserId = None, Summary_Comment = None\<rparr>
        :: unit item) \<noteq> Panicked \<and>
   getCloudFrontOriginAccessIdentityARN exampleCommon
     (Summary \<lparr>Summary_Id = Some ''E2ABC'', Summary_S3CanonicalUserId = None, Summary_Comment = None\<rparr>
        :: unit item) =
     Returned (Some ''arn:aws:cloudfront::123456789012:origin-access-identity/E2ABC'') None"
  using arn_hydrate_total_on_identified_items
    [of "()" exampleCommon
        "Summary \<lparr>Summary_Id = Some ''E2ABC'', Summary_S3CanonicalUserId = None, Summary_Comment = None\<rparr>"]
  by (simp add: getCloudFrontOriginAccessIdentityARN_def exampleCommon_def)

text \<open>
  The property as the specification states it fails: an \<open>*OriginAccessIdentitySummary\<close> whose \<open>Id\<close> is nil is one of
  the two variants, \<open>originAccessIdentityID\<close> returns its nil \<open>Id\<close>, and the ARN hydrate
  panics on the dereference.
\<close>

theorem arn_hydrate_panics_on_nil_id:
  "getCloudFrontOriginAccessIdentityARN exampleCommon
     (Summary \<lparr>Summary_Id = None, Summary_S3CanonicalUserId = None, Summary_Comment = None\<rparr>
        :: unit item) = Panicked"
  by (simp add: getCloudFrontOriginAccessIdentityARN_def)

text \<open>
  C10. When the \<open>GetPolicy\<close> call for a lambda alias fails, \<open>getLambdaAliasPolicy\<close> returns
  an empty \<open>GetPolicyOutput\<close> (its \<open>Policy\<close> is nil, so the policy columns are null) and no
  error if the error is an AWS error with code \<open>ResourceNotFoundException\<close>, and returns the
  error itself in every other case.
\<close>

theorem getLambdaAliasPolicy_error_handling:
  assumes "Row_FunctionName alias = Some functionName" and "Alias alias = Some a"
    and "Name a = Some name"
    and "GetPolicy svc \<lparr>GetPolicy_FunctionName = Some functionName, Qualifier = Some name\<rparr> = Inl err"
  shows "fst (getLambdaAliasPolicy (Inr svc) d alias) =
           (if \<exists>message. err = AwsError ''ResourceNotFoundException'' message
            then Returned (Some \<lparr>Policy = None, Policy_RevisionId = None\<rparr>) None
            else Returned None (Some err))"
  using assms by (cases err) (auto simp: getLambdaAliasPolicy_def Let_def)

theorem getLambdaAliasPolicy_error_handling_witness:
  "fst (getLambdaAliasPolicy (Inr (failingLambda (AwsError ''ResourceNotFoundException'' ''no policy'')))
          (emptyQueryData :: (GetPolicyInput, unit) QueryData)
          \<lparr>Alias = Some \<lparr>Name = Some ''live'', AliasArn = None, FunctionVersion = None,
                           RevisionId = None, Description = None\<rparr>,
            Row_FunctionName = Some ''f''\<rparr>) =
     Returned (Some \<lparr>Policy = None, Policy_RevisionId = None\<rparr>) None \<and>
   fst (getLambdaAliasPolicy (Inr (failingLambda (AwsError ''AccessDeniedException'' ''denied'')))
          (emptyQueryData :: (GetPolicyInput, unit) QueryData)
          \<lparr>Alias = Some \<lparr>Name = Some ''live'', AliasArn = None, FunctionVersion = None,
                           RevisionId = None, Description = None\<rparr>,
            Row_FunctionName = Some ''f''\<rparr>) =
     Returned None (Some (AwsError ''AccessDeniedException'' ''denied''))"
  using getLambdaAliasPolicy_error_handling
      [of "\<lparr>Alias = Some \<lparr>Name = Some ''live'', AliasArn = None, FunctionVersion = None,
                           RevisionId = None, Description = None\<rparr>,
            Row_FunctionName = Some ''f''\<rparr>" "''f''"
          "\<lparr>Name = Some ''live'', AliasArn = None, FunctionVersion = None,
                           RevisionId = None, Description = None\<rparr>" "''live''"
          "failingLambda (AwsError ''ResourceNotFoundException'' ''no policy'')"
          "AwsError ''ResourceNotFoundException'' ''no policy''"
          "emptyQueryData :: (GetPolicyInput, unit) QueryData"]
    getLambdaAliasPolicy_error_handling
      [of "\<lparr>Alias = Some \<lparr>Name = Some ''live'', AliasArn = None, FunctionVersion = None,
                           RevisionId = None, Description = None\<rparr>,
            Row_FunctionName = Some ''f''\<rparr>" "''f''"
          "\<lparr>Name = Some ''live'', AliasArn = None, FunctionVersion = None,
                           RevisionId = None, Description = None\<rparr>" "''live''"
          "failingLambda (AwsError ''AccessDeniedException'' ''denied'')"
          "AwsError ''AccessDeniedException'' ''denied''"
          "emptyQueryData :: (GetPolicyInput, unit) QueryData"]
  by (simp add: failingLambda_def)


end
